(* ===== verification/Py_Prelude.thy ===== *)
theory Py_Prelude
  imports Main "HOL-Library.Sublist"
begin

text \<open>
  Shared vocabulary of the development: the Python 2 string and set operations
  that both scripts use to build command lines and parse their inputs
  (\<open>str.split()\<close>, \<open>str.split(sep)\<close>, \<open>sep.join\<close>, \<open>str.strip\<close>, \<open>str.lower\<close>,
  \<open>x in s\<close>, \<open>int(s)\<close>, \<open>'{}'.format(n)\<close>, \<open>set |= / -=\<close>), each as an executable HOL
  function over byte strings (\<open>string\<close> = \<open>char list\<close>, as Python 2 \<open>str\<close>), with the
  lemmas about them that the component proofs share: the split of a space-joined list,
  the colon-split round trip, digit rendering and parsing, and the invariant of
  list-represented sets.
\<close>

named_theorems py_str "rewrite rules for the modelled Python string operations"

section \<open>Whitespace and \<open>str.split()\<close>\<close>

text \<open>Python 2 \<open>str.isspace\<close> on bytes: space, tab, newline, return, vertical tab, form feed.\<close>

abbreviation newline :: string where
  "newline \<equiv> [CHR 0x0A]"

definition py_whitespace :: string where
  "py_whitespace = [CHR '' '', CHR 0x09, CHR 0x0A, CHR 0x0D, CHR 0x0B, CHR 0x0C]"

definition py_isspace :: "char \<Rightarrow> bool" where
  "py_isspace c \<longleftrightarrow> c \<in> set py_whitespace"

text \<open>
  \<open>str.split()\<close> with no separator: maximal runs of non-space characters, empty
  strings never produced. \<open>cur\<close> holds the current word reversed.
\<close>

fun split_ws_acc :: "string \<Rightarrow> string \<Rightarrow> string list" where
  "split_ws_acc cur [] = (if cur = [] then [] else [rev cur])"
| "split_ws_acc cur (c # cs) =
     (if py_isspace c
      then (if cur = [] then split_ws_acc [] cs else rev cur # split_ws_acc [] cs)
      else split_ws_acc (c # cur) cs)"

definition py_split :: "string \<Rightarrow> string list" where
  "py_split s = split_ws_acc [] s"

text \<open>\<open>sep.join(ws)\<close>.\<close>

fun py_join :: "string \<Rightarrow> string list \<Rightarrow> string" where
  "py_join sep [] = []"
| "py_join sep [w] = w"
| "py_join sep (w # ws) = w @ sep @ py_join sep ws"

text \<open>\<open>str.split(d)\<close> with a one-character separator: always at least one field.\<close>

fun py_split_sep :: "char \<Rightarrow> string \<Rightarrow> string list" where
  "py_split_sep d [] = [[]]"
| "py_split_sep d (c # cs) =
     (let r = py_split_sep d cs in if c = d then [] # r else (c # hd r) # tl r)"

text \<open>\<open>str.strip(chars)\<close>: drop the given characters at both ends.\<close>

definition py_strip :: "string \<Rightarrow> string \<Rightarrow> string" where
  "py_strip cs s =
     rev (dropWhile (\<lambda>c. c \<in> set cs) (rev (dropWhile (\<lambda>c. c \<in> set cs) s)))"

text \<open>\<open>str.lower()\<close> on bytes: only \<open>A\<close>..\<open>Z\<close> change.\<close>

definition lower_char :: "char \<Rightarrow> char" where
  "lower_char c =
     (let n = (of_char c :: nat) in if 65 \<le> n \<and> n \<le> 90 then char_of (n + 32) else c)"

definition py_lower :: "string \<Rightarrow> string" where
  "py_lower s = map lower_char s"

text \<open>\<open>x in s\<close> for two strings is the substring test.\<close>

definition py_in :: "string \<Rightarrow> string \<Rightarrow> bool" where
  "py_in x s \<longleftrightarrow> sublist x s"

text \<open>\<open>'{}'.format(v)\<close> of a value that is a string or \<open>None\<close>.\<close>

definition py_str_opt :: "string option \<Rightarrow> string" where
  "py_str_opt v = (case v of None \<Rightarrow> ''None'' | Some t \<Rightarrow> t)"

text \<open>Truth value of a string or \<open>None\<close>: \<open>None\<close> and \<open>''\<close> are false.\<close>

definition py_truthy :: "string option \<Rightarrow> bool" where
  "py_truthy v \<longleftrightarrow> v \<noteq> None \<and> v \<noteq> Some []"

text \<open>
  \<open>repr(s)\<close> of a Python 2 byte string: single quotes, or double quotes when the string
  holds a single quote and no double quote; the quote, backslash, newline, carriage return
  and tab are escaped, other non-printable bytes are written \<open>\\xNN\<close>.
\<close>

definition hex_digit :: "nat \<Rightarrow> char" where
  "hex_digit n = (if n < 10 then char_of (48 + n) else char_of (87 + n))"

definition py_repr_char :: "char \<Rightarrow> char \<Rightarrow> string" where
  "py_repr_char q c =
     (let n = (of_char c :: nat) in
      if c = q \<or> c = CHR 0x5C then [CHR 0x5C, c]
      else if c = CHR 0x0A then [CHR 0x5C, CHR ''n'']
      else if c = CHR 0x0D then [CHR 0x5C, CHR ''r'']
      else if c = CHR 0x09 then [CHR 0x5C, CHR ''t'']
      else if n < 32 \<or> 127 \<le> n then [CHR 0x5C, CHR ''x'', hex_digit (n div 16), hex_digit (n mod 16)]
      else [c])"

definition py_repr :: "string \<Rightarrow> string" where
  "py_repr s =
     (let q = (if CHR 0x27 \<in> set s \<and> CHR 0x22 \<notin> set s then CHR 0x22 else CHR 0x27) in
      q # concat (map (py_repr_char q) s) @ [q])"

section \<open>Integers: \<open>'{}'.format(n)\<close> and \<open>int(s)\<close>\<close>

fun nat_str :: "nat \<Rightarrow> string" where
  "nat_str n =
     (if n < 10 then [char_of (48 + n)] else nat_str (n div 10) @ [char_of (48 + n mod 10)])"

declare nat_str.simps [simp del]

definition int_str :: "int \<Rightarrow> string" where
  "int_str i = (if i < 0 then CHR ''-'' # nat_str (nat (- i)) else nat_str (nat i))"

definition py_isdigit :: "char \<Rightarrow> bool" where
  "py_isdigit c \<longleftrightarrow> (let n = (of_char c :: nat) in 48 \<le> n \<and> n \<le> 57)"

definition digits_int :: "string \<Rightarrow> int" where
  "digits_int ds = foldl (\<lambda>acc c. 10 * acc + int ((of_char c :: nat) - 48)) 0 ds"

text \<open>
  \<open>int(s)\<close> in base 10: surrounding whitespace is ignored, an optional sign is followed
  by at least one decimal digit; anything else is \<open>None\<close> (Python raises ValueError).
\<close>

definition py_int :: "string \<Rightarrow> int option" where
  "py_int s =
     (let t = py_strip py_whitespace s in
      if t \<noteq> [] \<and> (hd t = CHR ''-'' \<or> hd t = CHR ''+'')
      then (if tl t \<noteq> [] \<and> list_all py_isdigit (tl t)
            then Some ((if hd t = CHR ''-'' then -1 else 1) * digits_int (tl t)) else None)
      else if t \<noteq> [] \<and> list_all py_isdigit t then Some (digits_int t) else None)"

section \<open>Python sets as duplicate-free lists\<close>

text \<open>
  A Python \<open>set\<close> of strings is a list without duplicates; its iteration order
  (unspecified in CPython) is the list order. \<open>set(xs)\<close>, \<open>a |= b\<close> and
  \<open>a -= b\<close>:
\<close>

definition pyset_of :: "'a list \<Rightarrow> 'a list" where
  "pyset_of xs = remdups xs"

definition pyset_ior :: "'a list \<Rightarrow> 'a list \<Rightarrow> 'a list" where
  "pyset_ior a b = a @ filter (\<lambda>x. x \<notin> set a) (remdups b)"

definition pyset_isub :: "'a list \<Rightarrow> 'a list \<Rightarrow> 'a list" where
  "pyset_isub a b = filter (\<lambda>x. x \<notin> set b) a"

section \<open>Lemmas\<close>

subsection \<open>Splitting on whitespace\<close>

lemma split_ws_acc_words:
  "(\<forall>c\<in>set cur. \<not> py_isspace c) \<Longrightarrow> w \<in> set (split_ws_acc cur s) \<Longrightarrow>
   w \<noteq> [] \<and> (\<forall>c\<in>set w. \<not> py_isspace c)"
proof (induction s arbitrary: cur)
  case Nil
  then show ?case by (cases "cur = []") simp_all
next
  case (Cons c cs)
  show ?case
  proof (cases "py_isspace c")
    case True
    show ?thesis
    proof (cases "cur = []")
      case True
      with \<open>py_isspace c\<close> Cons.prems have "w \<in> set (split_ws_acc [] cs)" by simp
      then show ?thesis by (rule Cons.IH [rotated]) simp
    next
      case False
      with \<open>py_isspace c\<close> Cons.prems have "w = rev cur \<or> w \<in> set (split_ws_acc [] cs)" by simp
      then show ?thesis
      proof
        assume "w = rev cur"
        with False Cons.prems(1) show ?thesis by simp
      next
        assume "w \<in> set (split_ws_acc [] cs)"
        then show ?thesis by (rule Cons.IH [rotated]) simp
      qed
    qed
  next
    case False
    with Cons.prems have "w \<in> set (split_ws_acc (c # cur) cs)" by simp
    moreover from False Cons.prems(1) have "\<forall>c'\<in>set (c # cur). \<not> py_isspace c'" by simp
    ultimately show ?thesis by (rule Cons.IH [rotated])
  qed
qed
lemma py_split_words [py_str]:
  "w \<in> set (py_split s) \<Longrightarrow> w \<noteq> [] \<and> (\<forall>c\<in>set w. \<not> py_isspace c)"
  using split_ws_acc_words [of "[]" w s] by (simp add: py_split_def)

lemma split_ws_acc_nospace:
  "\<forall>c\<in>set w. \<not> py_isspace c \<Longrightarrow>
   split_ws_acc cur w = (if cur = [] \<and> w = [] then [] else [rev cur @ w])"
  by (induction w arbitrary: cur) auto

lemma py_split_word [py_str]:
  "w \<noteq> [] \<Longrightarrow> \<forall>c\<in>set w. \<not> py_isspace c \<Longrightarrow> py_split w = [w]"
  by (simp add: py_split_def split_ws_acc_nospace)

lemma split_ws_acc_at_space:
  "py_isspace c \<Longrightarrow> split_ws_acc cur (a @ c # b) = split_ws_acc cur a @ split_ws_acc [] b"
  by (induction a arbitrary: cur) auto

lemma py_split_at_space [py_str]:
  "py_isspace c \<Longrightarrow> py_split (a @ c # b) = py_split a @ py_split b"
  by (simp add: py_split_def split_ws_acc_at_space)

lemma py_isspace_blank [simp]: "py_isspace (CHR '' '')"
  by (simp add: py_isspace_def py_whitespace_def)

lemma py_split_append_blank [py_str]:
  "py_split (a @ '' '' @ b) = py_split a @ py_split b"
  using py_split_at_space [of "CHR '' ''" a b] by simp

text \<open>Splitting a space-joined list splits each element on its own.\<close>

lemma py_split_join_blank [py_str]:
  "py_split (py_join '' '' xs) = concat (map py_split xs)"
proof (induction "'' ''" xs rule: py_join.induct)
  case 1
  then show ?case by (simp add: py_split_def)
next
  case (2 w)
  then show ?case by simp
next
  case (3 w v vs)
  then show ?case by (simp only: py_join.simps py_split_append_blank) simp
qed

lemma py_split_Nil [simp]: "py_split [] = []"
  by (simp add: py_split_def)

text \<open>Round trip: words without blanks survive joining and splitting.\<close>

lemma py_split_join_words [py_str]:
  "\<forall>w\<in>set ws. w \<noteq> [] \<and> (\<forall>c\<in>set w. \<not> py_isspace c) \<Longrightarrow> py_split (py_join '' '' ws) = ws"
proof -
  assume ok: "\<forall>w\<in>set ws. w \<noteq> [] \<and> (\<forall>c\<in>set w. \<not> py_isspace c)"
  have "concat (map py_split ws) = ws"
    using ok by (induction ws) (simp_all add: py_split_word)
  then show ?thesis
    by (simp add: py_split_join_blank)
qed

subsection \<open>Splitting on a separator\<close>

lemma py_split_sep_not_Nil [simp]: "py_split_sep d s \<noteq> []"
  by (induction s) (auto simp: Let_def)

lemma length_py_split_sep [py_str]:
  "length (py_split_sep d s) = Suc (count_list s d)"
  by (induction s) (auto simp: Let_def)

lemma py_join_Cons_hd:
  "r \<noteq> [] \<Longrightarrow> py_join sep ((c # hd r) # tl r) = c # py_join sep r"
  by (cases r; cases "tl r") simp_all

lemma py_join_split_sep [py_str]: "py_join [d] (py_split_sep d s) = s"
proof (induction s)
  case Nil
  then show ?case by simp
next
  case (Cons c cs)
  show ?case
  proof (cases "c = d")
    case True
    with Cons show ?thesis by (cases "py_split_sep d cs") auto
  next
    case False
    with Cons show ?thesis by (simp add: Let_def py_join_Cons_hd)
  qed
qed

lemma py_split_sep_fields: "w \<in> set (py_split_sep d s) \<Longrightarrow> d \<notin> set w"
proof (induction s arbitrary: w)
  case Nil
  then show ?case by simp
next
  case (Cons c cs)
  have ne: "py_split_sep d cs \<noteq> []" by simp
  show ?case
  proof (cases "c = d")
    case True
    with Cons show ?thesis by auto
  next
    case False
    then have "w = c # hd (py_split_sep d cs) \<or> w \<in> set (tl (py_split_sep d cs))"
      using Cons.prems by (auto simp: Let_def)
    then show ?thesis
    proof
      assume "w = c # hd (py_split_sep d cs)"
      with False ne Cons.IH show ?thesis by (auto dest: list.set_sel(1))
    next
      assume "w \<in> set (tl (py_split_sep d cs))"
      with ne have "w \<in> set (py_split_sep d cs)" by (rule list.set_sel(2))
      then show ?thesis by (rule Cons.IH)
    qed
  qed
qed

subsection \<open>Lower case, substring\<close>

lemma lower_char_idem [simp]: "lower_char (lower_char c) = lower_char c"
  by (simp add: lower_char_def Let_def of_char_of)

lemma py_lower_idem [simp]: "py_lower (py_lower s) = py_lower s"
  by (simp add: py_lower_def)

lemma py_in_iff: "py_in x s \<longleftrightarrow> (\<exists>a b. s = a @ x @ b)"
  by (auto simp: py_in_def sublist_def)

subsection \<open>Sets as lists\<close>

lemma set_pyset_ior [simp]: "set (pyset_ior a b) = set a \<union> set b"
  by (auto simp: pyset_ior_def)

lemma set_pyset_isub [simp]: "set (pyset_isub a b) = set a - set b"
  by (auto simp: pyset_isub_def)

lemma set_pyset_of [simp]: "set (pyset_of a) = set a"
  by (simp add: pyset_of_def)

lemma distinct_pyset_of [simp]: "distinct (pyset_of a)"
  by (simp add: pyset_of_def)

lemma distinct_pyset_ior [simp]: "distinct a \<Longrightarrow> distinct (pyset_ior a b)"
  by (auto simp: pyset_ior_def)

lemma distinct_pyset_isub [simp]: "distinct a \<Longrightarrow> distinct (pyset_isub a b)"
  by (simp add: pyset_isub_def)

lemma py_split_sep_line [py_str]:
  "d \<notin> set l \<Longrightarrow> py_split_sep d (l @ d # rest) = l # py_split_sep d rest"
  by (induction l) (auto simp: Let_def)

lemma py_split_sep_word [py_str]: "d \<notin> set l \<Longrightarrow> py_split_sep d l = [l]"
  by (induction l) (auto simp: Let_def)

subsection \<open>Integers\<close>

lemma py_isdigit_not_space: "py_isdigit c \<Longrightarrow> \<not> py_isspace c"
  by (auto simp: py_isdigit_def py_isspace_def py_whitespace_def)

lemma py_isdigit_not_sign: "py_isdigit c \<Longrightarrow> c \<noteq> CHR ''-'' \<and> c \<noteq> CHR ''+''"
  by (auto simp: py_isdigit_def)

lemma py_isdigit_char_of: "d < 10 \<Longrightarrow> py_isdigit (char_of (48 + d :: nat))"
  by (simp add: py_isdigit_def)

lemma nat_str_digits: "list_all py_isdigit (nat_str n) \<and> nat_str n \<noteq> []"
proof (induction n rule: nat_str.induct)
  case (1 n)
  show ?case
  proof (cases "n < 10")
    case True
    then show ?thesis by (simp add: nat_str.simps py_isdigit_char_of)
  next
    case False
    then show ?thesis using 1 by (simp add: nat_str.simps [of n] py_isdigit_char_of)
  qed
qed

lemma digits_int_snoc: "digits_int (xs @ [c]) = 10 * digits_int xs + int ((of_char c :: nat) - 48)"
  by (simp add: digits_int_def)

lemma digits_int_nat_str: "digits_int (nat_str n) = int n"
proof (induction n rule: nat_str.induct)
  case (1 n)
  show ?case
  proof (cases "n < 10")
    case True
    then show ?thesis by (simp add: nat_str.simps digits_int_def)
  next
    case False
    then have "digits_int (nat_str n) = 10 * int (n div 10) + int (n mod 10)"
      using 1 by (simp add: nat_str.simps [of n] digits_int_snoc)
    also have "\<dots> = int n"
      by (metis of_nat_add of_nat_mult of_nat_numeral div_mult_mod_eq mult.commute)
    finally show ?thesis .
  qed
qed

lemma py_strip_word:
  assumes "s \<noteq> []" "\<forall>c\<in>set s. \<not> py_isspace c" "set w \<subseteq> set py_whitespace"
  shows "py_strip py_whitespace (s @ w) = s"
proof -
  have hd: "hd s \<notin> set py_whitespace" and lst: "last s \<notin> set py_whitespace"
    using assms(1,2) by (auto simp: py_isspace_def)
  have "dropWhile (\<lambda>c. c \<in> set py_whitespace) (s @ w) = s @ w"
    using assms(1) hd by (simp add: dropWhile_eq_self_iff)
  moreover have "dropWhile (\<lambda>c. c \<in> set py_whitespace) (rev w @ rev s) = rev s"
  proof -
    have "dropWhile (\<lambda>c. c \<in> set py_whitespace) (rev w @ rev s)
          = dropWhile (\<lambda>c. c \<in> set py_whitespace) (rev s)"
      using assms(3) by (intro dropWhile_append2) auto
    also have "\<dots> = rev s"
      using assms(1) lst by (simp add: dropWhile_eq_self_iff hd_rev)
    finally show ?thesis .
  qed
  ultimately show ?thesis by (simp add: py_strip_def)
qed

lemma py_int_int_str:
  assumes "set w \<subseteq> set py_whitespace"
  shows "py_int (int_str i @ w) = Some i"
proof -
  obtain ds where ds: "ds = nat_str (nat \<bar>i\<bar>)" by simp
  have dig: "list_all py_isdigit ds" "ds \<noteq> []"
    using nat_str_digits ds by simp_all
  have nosp: "\<forall>c\<in>set ds. \<not> py_isspace c"
    using dig(1) py_isdigit_not_space by (auto simp: list_all_iff)
  show ?thesis
  proof (cases "i < 0")
    case True
    then have "int_str i = CHR ''-'' # ds" by (simp add: int_str_def ds)
    moreover have "py_strip py_whitespace ((CHR ''-'' # ds) @ w) = CHR ''-'' # ds"
      using nosp assms by (intro py_strip_word) (auto simp: py_isspace_def py_whitespace_def)
    ultimately show ?thesis
      using True dig by (simp add: py_int_def ds digits_int_nat_str)
  next
    case False
    then have "int_str i = ds" by (simp add: int_str_def ds)
    moreover have "py_strip py_whitespace (ds @ w) = ds"
      using nosp assms dig(2) by (intro py_strip_word)
    moreover have "hd ds \<noteq> CHR ''-'' \<and> hd ds \<noteq> CHR ''+''"
      using dig py_isdigit_not_sign by (cases ds) simp_all
    ultimately show ?thesis
      using False dig by (simp add: py_int_def ds digits_int_nat_str)
  qed
qed

lemma int_str_chars: "c \<in> set (int_str a) \<Longrightarrow> c = CHR ''-'' \<or> py_isdigit c"
  using nat_str_digits [of "nat a"] nat_str_digits [of "nat (- a)"]
  by (auto simp: int_str_def list_all_iff split: if_splits)

end
