(* ===== verification/Py_Process.thy ===== *)
theory Py_Process
  imports Py_Prelude
begin

text \<open>
  The execution model shared by both scripts. A run of a script is a function of the
  operating-system environment \<open>sys\<close> to an outcome (a Python exception, \<open>Inl\<close>, or a
  value, \<open>Inr\<close>) and the final environment: the type \<open>'a py\<close>. The environment holds
  the behaviour of every external command (\<open>run_proc\<close>: given the commands already
  started, the argument vector and the bytes on standard input, the process result,
  or \<open>None\<close> when the executable cannot be started), the ordered trace of argument
  vectors the script started, what it printed, and the other inputs the bootstrapper
  reads (random source, \<open>crypt\<close>, files, platform strings). The primitives are the
  ones the sources call: \<open>subprocess.check_call\<close>, \<open>Popen(...).communicate()\<close>,
  \<open>print\<close>, \<open>exit()\<close> and \<open>raise\<close>/\<open>try\<close>.
\<close>

section \<open>Exceptions, printed objects, process results\<close>

datatype exc =
    SystemExit                          \<comment> \<open>\<open>exit()\<close>: \<open>SystemExit(None)\<close>, exit status 0\<close>
  | CalledProcessError int "string list" \<comment> \<open>return code and command of \<open>check_call\<close>\<close>
  | OSError string
  | IOError string
  | ValueError string
  | TypeError string
  | AttributeError string
  | SystemError string
  | IndexError string

text \<open>
  The class hierarchy of these exceptions in Python 2: the \<open>__mro__\<close> of the class of
  each exception, from the class itself up to \<open>object\<close>.
\<close>

fun exc_mro :: "exc \<Rightarrow> string list" where
  "exc_mro SystemExit = [''SystemExit'', ''BaseException'', ''object'']"
| "exc_mro (CalledProcessError _ _) = [''CalledProcessError'', ''Exception'', ''BaseException'', ''object'']"
| "exc_mro (OSError _) =
     [''OSError'', ''EnvironmentError'', ''StandardError'', ''Exception'', ''BaseException'', ''object'']"
| "exc_mro (IOError _) =
     [''IOError'', ''EnvironmentError'', ''StandardError'', ''Exception'', ''BaseException'', ''object'']"
| "exc_mro (ValueError _) = [''ValueError'', ''StandardError'', ''Exception'', ''BaseException'', ''object'']"
| "exc_mro (TypeError _) = [''TypeError'', ''StandardError'', ''Exception'', ''BaseException'', ''object'']"
| "exc_mro (AttributeError _) =
     [''AttributeError'', ''StandardError'', ''Exception'', ''BaseException'', ''object'']"
| "exc_mro (SystemError _) = [''SystemError'', ''StandardError'', ''Exception'', ''BaseException'', ''object'']"
| "exc_mro (IndexError _) =
     [''IndexError'', ''LookupError'', ''StandardError'', ''Exception'', ''BaseException'', ''object'']"

text \<open>
  The values an \<open>except\<close> clause can name here: a boolean or a class. A class object is
  true; \<open>not\<close> gives a boolean.
\<close>

datatype py_obj = PyBool bool | PyClass string

definition py_truth :: "py_obj \<Rightarrow> bool" where
  "py_truth v = (case v of PyBool b \<Rightarrow> b | PyClass _ \<Rightarrow> True)"

definition py_not :: "py_obj \<Rightarrow> py_obj" where
  "py_not v = PyBool (\<not> py_truth v)"

text \<open>
  \<open>except target:\<close> in Python 2 (\<open>PyErr_GivenExceptionMatches\<close>): a class target matches
  an exception whose class has it in its \<open>__mro__\<close>; any other target is compared by identity
  with the class of the exception, and a boolean is never an exception class.
\<close>

definition except_matches :: "py_obj \<Rightarrow> exc \<Rightarrow> bool" where
  "except_matches target e =
     (case target of PyClass c \<Rightarrow> c \<in> set (exc_mro e) | PyBool _ \<Rightarrow> False)"

text \<open>What a Python 2 \<open>print\<close> statement was given.\<close>

datatype out_item =
    Line string
  | ExcObj exc
  | StrOrNone "string option"
  | Tuple "string option" "string option"

record proc_result =
  rc :: int
  p_out :: string
  p_err :: string

record sys =
  run_proc :: "string list list \<Rightarrow> string list \<Rightarrow> string \<Rightarrow> proc_result option"
  trace :: "string list list"
  printed :: "out_item list"
  rand_src :: "nat \<Rightarrow> nat"
  draws :: nat
  crypt_fn :: "string \<Rightarrow> string \<Rightarrow> string"
  files :: "string \<Rightarrow> string list option"
  platform_str :: string
  machine_str :: string

type_synonym 'a py = "sys \<Rightarrow> (exc + 'a) \<times> sys"

section \<open>The monad\<close>

definition pret :: "'a \<Rightarrow> 'a py" where
  "pret a s = (Inr a, s)"

definition praise :: "exc \<Rightarrow> 'a py" where
  "praise e s = (Inl e, s)"

definition pbind :: "'a py \<Rightarrow> ('a \<Rightarrow> 'b py) \<Rightarrow> 'b py" where
  "pbind m f s = (case m s of (Inl e, s') \<Rightarrow> (Inl e, s') | (Inr a, s') \<Rightarrow> f a s')"

definition pthen :: "'a py \<Rightarrow> 'b py \<Rightarrow> 'b py" where
  "pthen m k = pbind m (\<lambda>_. k)"

text \<open>
  \<open>try: m except ...\<close>: the handler gives the code of the matching \<open>except\<close> clause,
  or \<open>None\<close> when no clause matches and the exception propagates.
\<close>

definition pcatch :: "'a py \<Rightarrow> (exc \<Rightarrow> 'a py option) \<Rightarrow> 'a py" where
  "pcatch m h s =
     (case m s of
        (Inl e, s') \<Rightarrow> (case h e of None \<Rightarrow> (Inl e, s') | Some k \<Rightarrow> k s')
      | (Inr a, s') \<Rightarrow> (Inr a, s'))"

text \<open>A \<open>for\<close> loop over a list.\<close>

fun pfor :: "'a list \<Rightarrow> ('a \<Rightarrow> unit py) \<Rightarrow> unit py" where
  "pfor [] f = pret ()"
| "pfor (x # xs) f = pthen (f x) (pfor xs f)"

section \<open>Primitives\<close>

definition py_print :: "out_item \<Rightarrow> unit py" where
  "py_print x s = (Inr (), s\<lparr>printed := printed s @ [x]\<rparr>)"

definition py_exit :: "'a py" where
  "py_exit = praise SystemExit"

text \<open>
  Starting a process: the argument vector joins the trace; an executable that cannot be
  started makes \<open>Popen\<close> and \<open>check_call\<close> raise \<open>OSError\<close>.
\<close>

definition spawn :: "string list \<Rightarrow> string \<Rightarrow> proc_result py" where
  "spawn argv input s =
     (let s' = s\<lparr>trace := trace s @ [argv]\<rparr> in
      case run_proc s (trace s) argv input of
        None \<Rightarrow> (Inl (OSError ''[Errno 2] No such file or directory''), s')
      | Some r \<Rightarrow> (Inr r, s'))"

text \<open>\<open>subprocess.check_call(argv)\<close>: a non-zero return code raises.\<close>

definition check_call :: "string list \<Rightarrow> unit py" where
  "check_call argv =
     pbind (spawn argv []) (\<lambda>r.
       if rc r = 0 then pret () else praise (CalledProcessError (rc r) argv))"

text \<open>
  The pair \<open>communicate()\<close> returns: each stream is the captured text when it was
  opened with \<open>PIPE\<close>, and \<open>None\<close> otherwise.
\<close>

definition communicated :: "bool \<Rightarrow> bool \<Rightarrow> proc_result \<Rightarrow> string option \<times> string option" where
  "communicated pipe_out pipe_err r =
     (if pipe_out then Some (p_out r) else None, if pipe_err then Some (p_err r) else None)"

definition popen_communicate ::
  "string list \<Rightarrow> string \<Rightarrow> bool \<Rightarrow> bool \<Rightarrow> (string option \<times> string option) py" where
  "popen_communicate argv input pipe_out pipe_err =
     pbind (spawn argv input) (\<lambda>r. pret (communicated pipe_out pipe_err r))"

text \<open>
  \<open>random.SystemRandom().choice(seq)\<close>: the operating system's random source,
  read as a sequence of numbers indexed by the count of draws so far; the draw picks
  the element at that number modulo the length. An empty sequence raises.
\<close>

definition random_choice :: "'a list \<Rightarrow> 'a py" where
  "random_choice seq s =
     (if seq = [] then (Inl (IndexError ''Cannot choose from an empty sequence''), s)
      else (Inr (seq ! (rand_src s (draws s) mod length seq)), s\<lparr>draws := Suc (draws s)\<rparr>))"

text \<open>\<open>crypt.crypt(word, salt)\<close>, the C library's password hash.\<close>

definition crypt :: "string \<Rightarrow> string \<Rightarrow> string py" where
  "crypt word salt s = (Inr (crypt_fn s word salt), s)"

text \<open>Iterating over \<open>open(path)\<close>: the file's lines, each with its newline.\<close>

definition open_lines :: "string \<Rightarrow> string list py" where
  "open_lines path s =
     (case files s path of
        None \<Rightarrow> (Inl (IOError (''[Errno 2] No such file or directory: '' @ path)), s)
      | Some rows \<Rightarrow> (Inr rows, s))"

text \<open>\<open>platform.platform()\<close> and \<open>platform.machine()\<close>.\<close>

definition platform_platform :: "string py" where
  "platform_platform s = (Inr (platform_str s), s)"

definition platform_machine :: "string py" where
  "platform_machine s = (Inr (machine_str s), s)"

text \<open>Exit status of the interpreter for an outcome of the main program.\<close>

fun exit_status :: "exc + 'a \<Rightarrow> int" where
  "exit_status (Inr _) = 0"
| "exit_status (Inl SystemExit) = 0"
| "exit_status (Inl _) = 1"

text \<open>
  A computation is \<^emph>\<open>well-behaved\<close> when it only appends to the trace and to the
  printed output and never changes the environment's inputs other than the random
  draw counter.
\<close>

definition frame :: "sys \<Rightarrow> sys \<Rightarrow> bool" where
  "frame s t \<longleftrightarrow>
     run_proc t = run_proc s \<and> prefix (trace s) (trace t) \<and> prefix (printed s) (printed t)
     \<and> rand_src t = rand_src s \<and> draws s \<le> draws t \<and> crypt_fn t = crypt_fn s
     \<and> files t = files s \<and> platform_str t = platform_str s \<and> machine_str t = machine_str s"

definition framed :: "'a py \<Rightarrow> bool" where
  "framed m \<longleftrightarrow> (\<forall>s. frame s (snd (m s)))"

text \<open>
  Every executable the script may start exists: no \<open>OSError\<close> from starting a process.
\<close>

definition oracle_total :: "sys \<Rightarrow> bool" where
  "oracle_total s \<longleftrightarrow> (\<forall>h argv inp. run_proc s h argv inp \<noteq> None)"

text \<open>In such an environment, every exception a computation raises satisfies \<open>P\<close>.\<close>

definition raises_only :: "(exc \<Rightarrow> bool) \<Rightarrow> 'a py \<Rightarrow> bool" where
  "raises_only P m \<longleftrightarrow> (\<forall>s e. oracle_total s \<longrightarrow> fst (m s) = Inl e \<longrightarrow> P e)"

text \<open>Every process a computation starts has an argument vector satisfying \<open>Q\<close>.\<close>

definition spawns_only :: "(string list \<Rightarrow> bool) \<Rightarrow> 'a py \<Rightarrow> bool" where
  "spawns_only Q m \<longleftrightarrow> (\<forall>s. \<exists>cmds. trace (snd (m s)) = trace s @ cmds \<and> list_all Q cmds)"

text \<open>Every value a computation returns satisfies \<open>R\<close>.\<close>

definition returns_only :: "('a \<Rightarrow> bool) \<Rightarrow> 'a py \<Rightarrow> bool" where
  "returns_only R m \<longleftrightarrow> (\<forall>s a. fst (m s) = Inr a \<longrightarrow> R a)"

text \<open>
  Under the process behaviour \<open>R\<close>, a computation always returns a value (no exception).
\<close>

definition ok_under :: "(string list list \<Rightarrow> string list \<Rightarrow> string \<Rightarrow> proc_result option) \<Rightarrow> 'a py \<Rightarrow> bool" where
  "ok_under R m \<longleftrightarrow> (\<forall>s. run_proc s = R \<longrightarrow> (\<exists>a. fst (m s) = Inr a))"

section \<open>Lemmas\<close>

named_theorems py_run "evaluation rules of the py monad"

lemma pret_run [py_run]: "pret a s = (Inr a, s)"
  by (simp add: pret_def)

lemma praise_run [py_run]: "praise e s = (Inl e, s)"
  by (simp add: praise_def)

lemma pbind_run [py_run]:
  "pbind m f s = (case m s of (Inl e, s') \<Rightarrow> (Inl e, s') | (Inr a, s') \<Rightarrow> f a s')"
  by (simp add: pbind_def)

lemma pthen_run [py_run]:
  "pthen m k s = (case m s of (Inl e, s') \<Rightarrow> (Inl e, s') | (Inr a, s') \<Rightarrow> k s')"
  by (simp add: pthen_def pbind_def)

lemma py_print_run [py_run]: "py_print x s = (Inr (), s\<lparr>printed := printed s @ [x]\<rparr>)"
  by (simp add: py_print_def)

lemma py_exit_run [py_run]: "py_exit s = (Inl SystemExit, s)"
  by (simp add: py_exit_def praise_def)

lemma spawn_run [py_run]:
  "spawn argv input s =
     (case run_proc s (trace s) argv input of
        None \<Rightarrow> (Inl (OSError ''[Errno 2] No such file or directory''), s\<lparr>trace := trace s @ [argv]\<rparr>)
      | Some r \<Rightarrow> (Inr r, s\<lparr>trace := trace s @ [argv]\<rparr>))"
  by (simp add: spawn_def Let_def)

lemma check_call_run:
  "check_call argv s =
     (let s1 = s\<lparr>trace := trace s @ [argv]\<rparr> in
      case run_proc s (trace s) argv [] of
        None \<Rightarrow> (Inl (OSError ''[Errno 2] No such file or directory''), s1)
      | Some r \<Rightarrow> if rc r = 0 then (Inr (), s1) else (Inl (CalledProcessError (rc r) argv), s1))"
  by (simp add: check_call_def pbind_def spawn_def pret_def praise_def Let_def split: option.split)

lemma pcatch_run [py_run]:
  "pcatch m h s =
     (case m s of
        (Inl e, s') \<Rightarrow> (case h e of None \<Rightarrow> (Inl e, s') | Some k \<Rightarrow> k s')
      | (Inr a, s') \<Rightarrow> (Inr a, s'))"
  by (simp add: pcatch_def)

lemma random_choice_run [py_run]:
  "random_choice seq s =
     (if seq = [] then (Inl (IndexError ''Cannot choose from an empty sequence''), s)
      else (Inr (seq ! (rand_src s (draws s) mod length seq)), s\<lparr>draws := Suc (draws s)\<rparr>))"
  by (simp add: random_choice_def)

lemma crypt_run [py_run]: "crypt word salt s = (Inr (crypt_fn s word salt), s)"
  by (simp add: crypt_def)

lemma open_lines_run [py_run]:
  "open_lines path s =
     (case files s path of
        None \<Rightarrow> (Inl (IOError (''[Errno 2] No such file or directory: '' @ path)), s)
      | Some rows \<Rightarrow> (Inr rows, s))"
  by (simp add: open_lines_def)

lemma platform_run [py_run]:
  "platform_platform s = (Inr (platform_str s), s)"
  "platform_machine s = (Inr (machine_str s), s)"
  by (simp_all add: platform_platform_def platform_machine_def)

text \<open>Monad laws, as for any state monad with exceptions.\<close>

lemma pbind_pret_left [simp]: "pbind (pret a) f = f a"
  by (simp add: fun_eq_iff py_run)

lemma pbind_pret_right [simp]: "pbind m pret = m"
  by (simp add: fun_eq_iff py_run split: prod.split sum.split)

lemma pbind_assoc: "pbind (pbind m f) g = pbind m (\<lambda>a. pbind (f a) g)"
  by (simp add: fun_eq_iff py_run split: prod.split sum.split)

lemma pbind_praise [simp]: "pbind (praise e) f = praise e"
  by (simp add: fun_eq_iff py_run)

subsection \<open>Frame: what a step leaves alone\<close>

text \<open>
  A computation is \<^emph>\<open>well-behaved\<close> when it only appends to the trace and to the
  printed output and never changes the environment's inputs other than the random
  draw counter. Every primitive is, and binding keeps it.
\<close>

lemma frame_refl [simp]: "frame s s"
  by (simp add: frame_def)

lemma frame_trans: "frame s t \<Longrightarrow> frame t u \<Longrightarrow> frame s u"
  by (auto simp: frame_def intro: prefix_order.trans)

named_theorems framed_intros "well-behaved computations"

lemma framed_pret [framed_intros]: "framed (pret a)"
  by (simp add: framed_def pret_def)

lemma framed_praise [framed_intros]: "framed (praise e)"
  by (simp add: framed_def praise_def)

lemma framed_py_exit [framed_intros]: "framed py_exit"
  by (simp add: py_exit_def framed_praise)

lemma framed_py_print [framed_intros]: "framed (py_print x)"
  by (simp add: framed_def py_print_def frame_def)

lemma framed_spawn [framed_intros]: "framed (spawn argv input)"
  by (simp add: framed_def spawn_run frame_def split: option.split)

lemma framed_pbind [framed_intros]:
  "framed m \<Longrightarrow> (\<And>a. framed (f a)) \<Longrightarrow> framed (pbind m f)"
  unfolding framed_def pbind_def
  by (auto split: prod.split sum.split intro: frame_trans dest: spec)

lemma framed_pthen [framed_intros]: "framed m \<Longrightarrow> framed k \<Longrightarrow> framed (pthen m k)"
  by (simp add: pthen_def framed_pbind)

lemma framed_pcatch [framed_intros]:
  "framed m \<Longrightarrow> (\<And>e k. h e = Some k \<Longrightarrow> framed k) \<Longrightarrow> framed (pcatch m h)"
  unfolding framed_def pcatch_def
  by (auto split: prod.split sum.split option.split intro: frame_trans)

lemma framed_if [framed_intros]: "framed a \<Longrightarrow> framed b \<Longrightarrow> framed (if c then a else b)"
  by simp

lemma framed_check_call [framed_intros]: "framed (check_call argv)"
  by (simp add: check_call_def framed_intros)

lemma framed_popen_communicate [framed_intros]:
  "framed (popen_communicate argv input po pe)"
  by (simp add: popen_communicate_def framed_intros)

lemma framed_pfor [framed_intros]: "(\<And>x. framed (f x)) \<Longrightarrow> framed (pfor xs f)"
  by (induction xs) (simp_all add: framed_intros)

lemma framed_random_choice [framed_intros]: "framed (random_choice seq)"
  by (simp add: framed_def random_choice_def frame_def)

lemma framed_crypt [framed_intros]: "framed (crypt w salt)"
  by (simp add: framed_def crypt_def)

lemma framed_open_lines [framed_intros]: "framed (open_lines path)"
  by (simp add: framed_def open_lines_def split: option.split)

lemma framed_platform [framed_intros]: "framed platform_platform" "framed platform_machine"
  by (simp_all add: framed_def platform_platform_def platform_machine_def)

lemma framed_trace_prefix: "framed m \<Longrightarrow> prefix (trace s) (trace (snd (m s)))"
  by (simp add: framed_def frame_def)

subsection \<open>Exceptions raised when every executable exists\<close>

named_theorems raises_intros "computations raising only some exceptions"

lemma oracle_total_frame: "frame s t \<Longrightarrow> oracle_total t = oracle_total s"
  by (simp add: frame_def oracle_total_def)

lemma raises_pret [raises_intros]: "raises_only P (pret a)"
  by (simp add: raises_only_def pret_def)

lemma raises_praise [raises_intros]: "P e \<Longrightarrow> raises_only P (praise e)"
  by (simp add: raises_only_def praise_def)

lemma raises_py_print [raises_intros]: "raises_only P (py_print x)"
  by (simp add: raises_only_def py_print_def)

lemma raises_crypt [raises_intros]: "raises_only P (crypt w salt)"
  by (simp add: raises_only_def crypt_def)

lemma raises_random_choice [raises_intros]: "seq \<noteq> [] \<Longrightarrow> raises_only P (random_choice seq)"
  by (simp add: raises_only_def random_choice_def)

lemma raises_if [raises_intros]:
  "raises_only P a \<Longrightarrow> raises_only P b \<Longrightarrow> raises_only P (if c then a else b)"
  by simp

lemma raises_pbind [raises_intros]:
  assumes "framed m" "raises_only P m" "\<And>a. raises_only P (f a)"
  shows "raises_only P (pbind m f)"
  unfolding raises_only_def
proof (intro allI impI)
  fix s e
  assume tot: "oracle_total s" and r: "fst (pbind m f s) = Inl e"
  obtain r1 s1 where m: "m s = (r1, s1)" by (cases "m s")
  have "frame s s1" using assms(1) m by (simp add: framed_def) (metis snd_conv)
  then have tot1: "oracle_total s1" using tot oracle_total_frame by blast
  show "P e"
  proof (cases r1)
    case (Inl e1)
    then show ?thesis using r m assms(2) tot by (simp add: pbind_def raises_only_def)
  next
    case (Inr a)
    then show ?thesis using r m assms(3) tot1 by (simp add: pbind_def raises_only_def)
  qed
qed

lemma raises_pthen [raises_intros]:
  "framed m \<Longrightarrow> raises_only P m \<Longrightarrow> raises_only P k \<Longrightarrow> raises_only P (pthen m k)"
  by (simp add: pthen_def raises_pbind)

lemma raises_pcatch [raises_intros]:
  assumes "framed m" "raises_only P m" "\<And>e k. h e = Some k \<Longrightarrow> raises_only Q k"
    "\<And>e. P e \<Longrightarrow> h e = None \<Longrightarrow> Q e"
  shows "raises_only Q (pcatch m h)"
  unfolding raises_only_def
proof (intro allI impI)
  fix s e
  assume tot: "oracle_total s" and r: "fst (pcatch m h s) = Inl e"
  obtain r1 s1 where m: "m s = (r1, s1)" by (cases "m s")
  have "frame s s1" using assms(1) m by (simp add: framed_def) (metis snd_conv)
  then have tot1: "oracle_total s1" using tot oracle_total_frame by blast
  show "Q e"
  proof (cases r1)
    case (Inl e1)
    have P1: "P e1" using assms(2) tot m Inl unfolding raises_only_def by (metis fst_conv)
    show ?thesis
    proof (cases "h e1")
      case None
      then show ?thesis using r m Inl assms(4) [OF P1] by (simp add: pcatch_def)
    next
      case (Some k)
      then show ?thesis using r m Inl assms(3) [OF Some] tot1
        by (simp add: pcatch_def raises_only_def)
    qed
  next
    case (Inr a)
    then show ?thesis using r m by (simp add: pcatch_def)
  qed
qed

lemma raises_nothing_returns:
  "raises_only (\<lambda>e. False) m \<Longrightarrow> oracle_total s \<Longrightarrow> fst (m s) = Inr ()"
  by (cases "fst (m s)") (auto simp: raises_only_def)

lemma raises_check_call [raises_intros]:
  assumes "\<And>r. P (CalledProcessError r argv)"
  shows "raises_only P (check_call argv)"
  unfolding raises_only_def
proof (intro allI impI)
  fix s e
  assume "oracle_total s" "fst (check_call argv s) = Inl e"
  moreover obtain r where "run_proc s (trace s) argv [] = Some r"
    using calculation(1) unfolding oracle_total_def by blast
  ultimately show "P e"
    using assms by (auto simp: check_call_def pbind_def spawn_def pret_def praise_def Let_def
        split: if_splits)
qed

subsection \<open>Processes started\<close>

named_theorems spawns_intros "computations starting only some commands"

lemma spawns_pret [spawns_intros]: "spawns_only Q (pret a)"
  by (simp add: spawns_only_def pret_def)

lemma spawns_praise [spawns_intros]: "spawns_only Q (praise e)"
  by (simp add: spawns_only_def praise_def)

lemma spawns_py_exit [spawns_intros]: "spawns_only Q py_exit"
  by (simp add: py_exit_def spawns_praise)

lemma spawns_py_print [spawns_intros]: "spawns_only Q (py_print x)"
  by (simp add: spawns_only_def py_print_def)

lemma spawns_spawn [spawns_intros]: "Q argv \<Longrightarrow> spawns_only Q (spawn argv input)"
  by (simp add: spawns_only_def spawn_def Let_def split: option.split)

lemma spawns_if [spawns_intros]:
  "spawns_only Q a \<Longrightarrow> spawns_only Q b \<Longrightarrow> spawns_only Q (if c then a else b)"
  by simp

lemma spawns_pbind [spawns_intros]:
  assumes "spawns_only Q m" "\<And>a. spawns_only Q (f a)"
  shows "spawns_only Q (pbind m f)"
  unfolding spawns_only_def
proof
  fix s
  obtain r1 s1 where m: "m s = (r1, s1)" by (cases "m s")
  obtain c1 where c1: "trace s1 = trace s @ c1" "list_all Q c1"
    using assms(1) m unfolding spawns_only_def by (metis snd_conv)
  show "\<exists>cmds. trace (snd (pbind m f s)) = trace s @ cmds \<and> list_all Q cmds"
  proof (cases r1)
    case (Inl e)
    then show ?thesis using m c1 by (auto simp: pbind_def)
  next
    case (Inr a)
    obtain c2 where "trace (snd (f a s1)) = trace s1 @ c2" "list_all Q c2"
      using assms(2) unfolding spawns_only_def by blast
    then show ?thesis using m c1 Inr by (auto simp: pbind_def)
  qed
qed

lemma spawns_pthen [spawns_intros]:
  "spawns_only Q m \<Longrightarrow> spawns_only Q k \<Longrightarrow> spawns_only Q (pthen m k)"
  by (simp add: pthen_def spawns_pbind)

lemma spawns_pcatch [spawns_intros]:
  assumes "spawns_only Q m" "\<And>e k. h e = Some k \<Longrightarrow> spawns_only Q k"
  shows "spawns_only Q (pcatch m h)"
  unfolding spawns_only_def
proof
  fix s
  obtain r1 s1 where m: "m s = (r1, s1)" by (cases "m s")
  obtain c1 where c1: "trace s1 = trace s @ c1" "list_all Q c1"
    using assms(1) m unfolding spawns_only_def by (metis snd_conv)
  show "\<exists>cmds. trace (snd (pcatch m h s)) = trace s @ cmds \<and> list_all Q cmds"
  proof (cases r1)
    case (Inl e)
    show ?thesis
    proof (cases "h e")
      case None
      then show ?thesis using m c1 Inl by (auto simp: pcatch_def)
    next
      case (Some k)
      obtain c2 where "trace (snd (k s1)) = trace s1 @ c2" "list_all Q c2"
        using assms(2) [OF Some] unfolding spawns_only_def by blast
      then show ?thesis using m c1 Inl Some by (auto simp: pcatch_def)
    qed
  next
    case (Inr a)
    then show ?thesis using m c1 by (auto simp: pcatch_def)
  qed
qed

lemma spawns_check_call [spawns_intros]: "Q argv \<Longrightarrow> spawns_only Q (check_call argv)"
  by (simp add: check_call_def spawns_intros)

lemma spawns_popen_communicate [spawns_intros]:
  "Q argv \<Longrightarrow> spawns_only Q (popen_communicate argv input po pe)"
  by (simp add: popen_communicate_def spawns_intros)

lemma spawns_no_process [spawns_intros]:
  "spawns_only Q (random_choice seq)" "spawns_only Q (crypt w salt)"
  "spawns_only Q (open_lines path)" "spawns_only Q platform_platform"
  "spawns_only Q platform_machine"
  by (simp_all add: spawns_only_def random_choice_def crypt_def open_lines_def
      platform_platform_def platform_machine_def split: option.split)

subsection \<open>Values returned\<close>

named_theorems returns_intros "computations returning only some values"

lemma returns_pret [returns_intros]: "R a \<Longrightarrow> returns_only R (pret a)"
  by (simp add: returns_only_def pret_def)

lemma returns_praise [returns_intros]: "returns_only R (praise e)"
  by (simp add: returns_only_def praise_def)

lemma returns_if [returns_intros]: "returns_only R a \<Longrightarrow> returns_only R b \<Longrightarrow> returns_only R (if c then a else b)"
  by simp

lemma returns_pbind:
  assumes "returns_only R1 m" "\<And>a. R1 a \<Longrightarrow> returns_only R (f a)"
  shows "returns_only R (pbind m f)"
  unfolding returns_only_def
proof (intro allI impI)
  fix s a
  assume r: "fst (pbind m f s) = Inr a"
  obtain r1 s1 where m: "m s = (r1, s1)" by (cases "m s")
  then obtain b where b: "r1 = Inr b" using r by (cases r1) (auto simp: pbind_def)
  then have "R1 b" using assms(1) m unfolding returns_only_def by (metis fst_conv)
  then show "R a" using assms(2) r m b unfolding returns_only_def by (simp add: pbind_def)
qed

lemma returns_pbind_any: "(\<And>a. returns_only R (f a)) \<Longrightarrow> returns_only R (pbind m f)"
  by (rule returns_pbind [of "\<lambda>_. True"]) (simp_all add: returns_only_def)

lemma spawns_pbind_returns:
  assumes "spawns_only Q m" "returns_only R m" "\<And>a. R a \<Longrightarrow> spawns_only Q (f a)"
  shows "spawns_only Q (pbind m f)"
  unfolding spawns_only_def
proof
  fix s
  obtain r1 s1 where m: "m s = (r1, s1)" by (cases "m s")
  obtain c1 where c1: "trace s1 = trace s @ c1" "list_all Q c1"
    using assms(1) m unfolding spawns_only_def by (metis snd_conv)
  show "\<exists>cmds. trace (snd (pbind m f s)) = trace s @ cmds \<and> list_all Q cmds"
  proof (cases r1)
    case (Inl e)
    then show ?thesis using m c1 by (auto simp: pbind_def)
  next
    case (Inr a)
    then have "R a" using assms(2) m unfolding returns_only_def by (metis fst_conv)
    then obtain c2 where "trace (snd (f a s1)) = trace s1 @ c2" "list_all Q c2"
      using assms(3) unfolding spawns_only_def by blast
    then show ?thesis using m c1 Inr by (auto simp: pbind_def)
  qed
qed

lemma pbind_fails: "(\<And>a s. \<exists>e. fst (f a s) = Inl e) \<Longrightarrow> \<exists>e. fst (pbind m f s) = Inl e"
  by (cases "m s") (auto simp: pbind_def split: sum.split)

lemma pthen_fails: "(\<And>s. \<exists>e. fst (k s) = Inl e) \<Longrightarrow> \<exists>e. fst (pthen m k s) = Inl e"
  by (simp add: pthen_def pbind_fails)

subsection \<open>Returning normally\<close>

named_theorems ok_intros "computations that return a value under a process behaviour"

lemma ok_pret [ok_intros]: "ok_under R (pret a)"
  by (simp add: ok_under_def pret_def)

lemma ok_if [ok_intros]: "ok_under R a \<Longrightarrow> ok_under R b \<Longrightarrow> ok_under R (if c then a else b)"
  by simp

lemma ok_pbind [ok_intros]:
  assumes "framed m" "ok_under R m" "\<And>a. ok_under R (f a)"
  shows "ok_under R (pbind m f)"
  unfolding ok_under_def
proof (intro allI impI)
  fix s :: sys assume R: "run_proc s = R"
  obtain a s1 where m: "m s = (Inr a, s1)"
    using assms(2) R unfolding ok_under_def by (metis prod.collapse)
  have "run_proc s1 = R" using assms(1) m R unfolding framed_def frame_def by (metis snd_conv)
  then show "\<exists>b. fst (pbind m f s) = Inr b"
    using assms(3) m unfolding ok_under_def by (simp add: pbind_def)
qed

lemma ok_platform_machine [ok_intros]: "ok_under R platform_machine"
  by (simp add: ok_under_def platform_machine_def)

end
