(* ===== verification/Nuke.thy ===== *)
theory Nuke
  imports Py_Process
begin

text \<open>
  The Destroyer, \<open>src/lxc-nuke/lxc_nuke.py\<close>: list the containers once
  (\<open>_get_container_list\<close>), test the name against the listing
  (\<open>_container_exists\<close>), pipe the fancy listing through two \<open>grep\<close>s
  (\<open>_container_is_running\<close>), stop the container if it runs (\<open>_stop_container\<close>),
  destroy it (\<open>_destroy_container\<close>), in the order of \<open>_run\<close>, under the
  \<open>try\<close> of the main block. Each function is one definition over the \<open>py\<close> monad;
  the lemmas compute each branch of the workflow from the results of the external
  commands.
\<close>


section \<open>Command prefixes: class \<open>LXC\<close>\<close>

definition LXC_create :: string where "LXC_create = ''/usr/bin/lxc-create ''"
definition LXC_destroy :: string where "LXC_destroy = ''/usr/bin/lxc-destroy ''"
definition LXC_list :: string where "LXC_list = ''/usr/bin/lxc-ls ''"
definition LXC_stop :: string where "LXC_stop = ''/usr/bin/lxc-stop ''"

section \<open>Argument vectors\<close>

definition ls_argv :: "string list" where "ls_argv = [''/usr/bin/lxc-ls'']"
definition fancy_argv :: "string list" where "fancy_argv = [''/usr/bin/lxc-ls'', ''--fancy'']"
definition running_argv :: "string list" where "running_argv = [''grep'', ''RUNNING'']"

abbreviation grep_argv :: "string \<Rightarrow> string list" where
  "grep_argv n \<equiv> py_split (''grep '' @ n)"

abbreviation stop_argv :: "string \<Rightarrow> string list" where
  "stop_argv n \<equiv> py_split (LXC_stop @ ''-n '' @ n)"

abbreviation destroy_argv :: "string \<Rightarrow> string list" where
  "destroy_argv n \<equiv> py_split (LXC_destroy @ ''-n '' @ n)"

section \<open>The operations\<close>

text \<open>\<open>_get_container_list\<close>: the raw \<open>lxc-ls\<close> output, or \<open>exit()\<close> on any stderr.\<close>

definition get_container_list :: "string option py" where
  "get_container_list =
     pbind (popen_communicate (py_split LXC_list) [] True True) (\<lambda>listexec.
       if snd listexec \<noteq> Some []
       then pthen (py_print (Line ''Unable to get container list from LXC, cannot continue''))
              py_exit
       else pret (fst listexec))"

text \<open>
  \<open>_container_exists\<close>: \<open>container_name in containers\<close>, where \<open>containers\<close> is the
  module global holding the listing string: a substring test.
\<close>

definition container_exists :: "string \<Rightarrow> string option \<Rightarrow> bool py" where
  "container_exists container_name containers =
     (case containers of
        None \<Rightarrow> praise (TypeError ''argument of type NoneType is not iterable'')
      | Some c \<Rightarrow> pret (py_in container_name c))"

text \<open>
  \<open>_container_is_running\<close>: \<open>lxc-ls --fancy | grep NAME | grep RUNNING\<close>. The first two
  processes are \<open>Popen\<close>s whose standard output feeds the next one; only the last is
  \<open>communicate\<close>d, and only its stderr is checked.
\<close>

definition container_is_running :: "string \<Rightarrow> bool py" where
  "container_is_running container_name =
     pbind (spawn (py_split (LXC_list @ ''--fancy'')) []) (\<lambda>grep1.
     pbind (spawn (py_split (''grep '' @ container_name)) (p_out grep1)) (\<lambda>grep2.
     pbind (spawn (py_split ''grep RUNNING'') (p_out grep2)) (\<lambda>r.
       let grep3 = communicated True True r in
       pthen (py_print (Tuple (fst grep3) (snd grep3)))
       (if snd grep3 \<noteq> Some []
        then pthen (py_print (Line (''An error occurred checking if container ['' @ container_name
                     @ ''] is running, stopping nuke process.''))) py_exit
        else pret (py_in ''RUNNING'' (p_out r))))))"

text \<open>
  \<open>_stop_container\<close>: the \<open>Popen\<close> pipes stdout and stdin but not stderr, so
  \<open>communicate()\<close> returns \<open>None\<close> for stderr and \<open>stopexec[1] != ''\<close> holds.
\<close>

definition stop_container :: "string \<Rightarrow> unit py" where
  "stop_container container_name =
     pbind (spawn (py_split (LXC_stop @ ''-n '' @ container_name)) []) (\<lambda>r.
       let stopexec = communicated True False r in
       if snd stopexec \<noteq> Some []
       then pthen (py_print (StrOrNone (snd stopexec)))
             (pthen (py_print (Line (''An error occurred trying to stop container [''
                       @ container_name @ ''].''))) py_exit)
       else py_print (Line (''Container ['' @ container_name @ ''] has been stopped.'')))"

definition destroy_container :: "string \<Rightarrow> unit py" where
  "destroy_container container_name =
     pbind (spawn (py_split (LXC_destroy @ ''-n '' @ container_name)) []) (\<lambda>r.
       let destroyexec = communicated True True r in
       if snd destroyexec \<noteq> Some []
       then pthen (py_print (StrOrNone (snd destroyexec)))
             (pthen (py_print (Line (''An error occured trying to destroy container [''
                       @ container_name @ ''].''))) py_exit)
       else py_print (Line (''Container ['' @ container_name @ ''] has been destroyed.'' @ newline)))"

text \<open>\<open>_run\<close>, after \<open>argparse\<close> has produced the positional \<open>name\<close>.\<close>

definition nuke_run :: "string \<Rightarrow> string option \<Rightarrow> unit py" where
  "nuke_run container_name containers =
     pthen (py_print (Line (''Checking if container ['' @ container_name @ ''] exists...'')))
     (pbind (container_exists container_name containers) (\<lambda>found.
     pthen (if \<not> found
            then pthen (py_print (Line (''Container ['' @ container_name
                          @ ''] does not exist, nothing to nuke.'' @ newline))) py_exit
            else py_print (Line (''Container ['' @ container_name
                          @ ''] found, working to nuke container...'' @ newline)))
     (pbind (container_is_running container_name) (\<lambda>running.
     pthen (if running
            then pthen (py_print (Line (''Container ['' @ container_name
                          @ ''] is running, stopping the container...'')))
                  (pthen (stop_container container_name)
                    (py_print (Line (''Container ['' @ container_name
                          @ ''] has been stopped, we can now destroy it.'' @ newline))))
            else py_print (Line (''Container ['' @ container_name
                          @ ''] is not running, attempting to destroy container...'' @ newline)))
     (pthen (py_print (Line (''Now attempting to destroy container ['' @ container_name @ '']...'')))
     (pthen (destroy_container container_name)
     (pthen (py_print (Line (''Container ['' @ container_name @ ''] nuked successfully.'')))
       py_exit)))))))"

text \<open>
  The main block: \<open>try: containers = _get_container_list(); _run()\<close>
  \<open>except not SystemExit:\<close>. The clause's target is the expression \<open>not SystemExit\<close>,
  evaluated and matched as Python 2 does (\<open>py_not\<close>, \<open>except_matches\<close> of \<open>Py_Process\<close>).
\<close>

definition except_not_SystemExit :: "exc \<Rightarrow> bool" where
  "except_not_SystemExit e = except_matches (py_not (PyClass ''SystemExit'')) e"

definition nuke_main :: "string \<Rightarrow> unit py" where
  "nuke_main name =
     pcatch (pbind get_container_list (\<lambda>containers. nuke_run name containers))
       (\<lambda>e. if except_not_SystemExit e
            then Some (pthen (py_print (Line newline)) (py_print (ExcObj e)))
            else None)"

section \<open>Lemmas\<close>

lemma py_split_LXC_list [simp]: "py_split LXC_list = ls_argv"
  by (simp add: LXC_list_def ls_argv_def py_split_def py_isspace_def py_whitespace_def)

lemma py_split_fancy [simp]: "py_split (LXC_list @ ''--fancy'') = fancy_argv"
  by (simp add: LXC_list_def fancy_argv_def py_split_def py_isspace_def py_whitespace_def)

lemma py_split_grep_running [simp]: "py_split ''grep RUNNING'' = running_argv"
  by (simp add: running_argv_def py_split_def py_isspace_def py_whitespace_def)

lemmas nuke_defs = nuke_main_def get_container_list_def popen_communicate_def communicated_def
  nuke_run_def container_exists_def except_not_SystemExit_def container_is_running_def
  stop_container_def destroy_container_def except_matches_def py_not_def py_truth_def

section \<open>The workflow, branch by branch\<close>

text \<open>C30: When the container is not in the listing, the destroyer prints that there is nothing to nuke and exits without further commands.\<close>

theorem nuke_absent:
  assumes ls: "run_proc s (trace s) ls_argv [] = Some r"
    and ok: "p_err r = []"
    and absent: "\<not> py_in name (p_out r)"
  shows "nuke_main name s =
     (Inl SystemExit, s\<lparr>trace := trace s @ [ls_argv],
        printed := printed s @ [Line (''Checking if container ['' @ name @ ''] exists...''),
          Line (''Container ['' @ name @ ''] does not exist, nothing to nuke.'' @ newline)]\<rparr>)"
  by (simp add: nuke_defs py_run ls ok absent)

text \<open>C29: When the container exists and is not running, the destroyer starts lxc-destroy for it and exits with SystemExit.\<close>

theorem nuke_not_running:
  assumes ls: "run_proc s (trace s) ls_argv [] = Some r1"
    and ok1: "p_err r1 = []"
    and found: "py_in name (p_out r1)"
    and fancy: "run_proc s (trace s @ [ls_argv]) fancy_argv [] = Some r2"
    and grep: "run_proc s (trace s @ [ls_argv, fancy_argv]) (grep_argv name) (p_out r2) = Some r3"
    and grep3: "run_proc s (trace s @ [ls_argv, fancy_argv, grep_argv name]) running_argv
                  (p_out r3) = Some r4"
    and ok4: "p_err r4 = []"
    and stopped: "\<not> py_in ''RUNNING'' (p_out r4)"
    and destroy: "run_proc s (trace s @ [ls_argv, fancy_argv, grep_argv name, running_argv])
                    (destroy_argv name) [] = Some r5"
    and ok5: "p_err r5 = []"
  shows "fst (nuke_main name s) = Inl SystemExit \<and>
    trace (snd (nuke_main name s)) =
      trace s @ [ls_argv, fancy_argv, grep_argv name, running_argv, destroy_argv name] \<and>
    last (printed (snd (nuke_main name s))) = Line (''Container ['' @ name @ ''] nuked successfully.'')"
  using assms by (simp add: nuke_defs py_run)

text \<open>C5: For any environment, when the container is listed and grep reports it RUNNING, the destroyer stops it and then exits before starting lxc-destroy, because the stop step reads stderr that was never piped.\<close>

theorem nuke_running_never_destroys:
  assumes ls: "run_proc s (trace s) ls_argv [] = Some r1"
    and ok1: "p_err r1 = []"
    and found: "py_in name (p_out r1)"
    and fancy: "run_proc s (trace s @ [ls_argv]) fancy_argv [] = Some r2"
    and grep: "run_proc s (trace s @ [ls_argv, fancy_argv]) (grep_argv name) (p_out r2) = Some r3"
    and grep3: "run_proc s (trace s @ [ls_argv, fancy_argv, grep_argv name]) running_argv
                  (p_out r3) = Some r4"
    and ok4: "p_err r4 = []"
    and running: "py_in ''RUNNING'' (p_out r4)"
    and stop: "run_proc s (trace s @ [ls_argv, fancy_argv, grep_argv name, running_argv])
                 (stop_argv name) [] = Some r5"
  shows "fst (nuke_main name s) = Inl SystemExit \<and>
    trace (snd (nuke_main name s)) =
      trace s @ [ls_argv, fancy_argv, grep_argv name, running_argv, stop_argv name] \<and>
    last (printed (snd (nuke_main name s))) =
      Line (''An error occurred trying to stop container ['' @ name @ ''].'')"
  using assms by (simp add: nuke_defs py_run)

text \<open>C32: When lxc-ls writes to stderr, the destroyer reports it and exits before any other command.\<close>

theorem nuke_list_error:
  assumes ls: "run_proc s (trace s) ls_argv [] = Some r"
    and err: "p_err r \<noteq> []"
  shows "nuke_main name s =
     (Inl SystemExit, s\<lparr>trace := trace s @ [ls_argv],
        printed := printed s @ [Line ''Unable to get container list from LXC, cannot continue'']\<rparr>)
   \<and> exit_status (fst (nuke_main name s)) = 0"
  by (simp add: nuke_defs py_run ls err)

text \<open>C31: Every run of the destroyer that does not hit a missing executable ends in SystemExit, hence with exit status 0, also when it fails.\<close>

theorem nuke_outcome:
  "fst (nuke_main name s) = Inl SystemExit \<or> (\<exists>m. fst (nuke_main name s) = Inl (OSError m))"
  by (simp add: nuke_defs py_run split: option.split)

text \<open>C34: The clause except not SystemExit, evaluated and matched as Python 2 does, matches no exception, so the main block handles nothing: nuke_main is its body.\<close>

theorem nuke_no_handler:
  "(\<forall>e. \<not> except_not_SystemExit e) \<and> nuke_main name = pbind get_container_list (nuke_run name)"
  by (simp add: nuke_main_def except_not_SystemExit_def except_matches_def py_not_def py_truth_def
      pcatch_def fun_eq_iff split: prod.split sum.split)

end
