(* ===== verification/Lxc_Toolkit.thy ===== *)
theory Lxc_Toolkit
  imports Py_Process "HOL-Library.AList"
begin

text \<open>
  A model of the external collaborator both scripts drive: the LXC toolkit and
  \<open>grep\<close>, as the spec describes their command-line contract (they are not code of the
  repository). The toolkit's state is a table of containers in listing order, each
  \<open>STOPPED\<close> or \<open>RUNNING\<close>. \<open>lxc_answer\<close> is what one command prints and returns
  on a table, \<open>lxc_apply\<close> how it changes the table, and \<open>lxc_world\<close> turns a start
  table into the \<open>run_proc\<close> oracle of \<open>Py_Process\<close>: the answer to a command is
  computed on the table reached by replaying the commands started before it.
\<close>

datatype cstate = STOPPED | RUNNING

type_synonym ctable = "(string \<times> cstate) list"

section \<open>Text output\<close>

definition unlines :: "string list \<Rightarrow> string" where
  "unlines ls = concat (map (\<lambda>l. l @ [CHR 0x0A]) ls)"

text \<open>The lines \<open>grep\<close> reads: a final line needs no terminating newline.\<close>

definition text_lines :: "string \<Rightarrow> string list" where
  "text_lines t = (let fs = py_split_sep (CHR 0x0A) t in if last fs = [] then butlast fs else fs)"

definition state_str :: "cstate \<Rightarrow> string" where
  "state_str st = (case st of STOPPED \<Rightarrow> ''STOPPED'' | RUNNING \<Rightarrow> ''RUNNING'')"

definition fancy_header :: string where
  "fancy_header = ''NAME STATE''"

definition fancy_line :: "string \<times> cstate \<Rightarrow> string" where
  "fancy_line e = fst e @ '' '' @ state_str (snd e)"

definition ls_output :: "ctable \<Rightarrow> string" where
  "ls_output T = (if T = [] then [] else py_join '' '' (map fst T) @ [CHR 0x0A])"

definition fancy_output :: "ctable \<Rightarrow> string" where
  "fancy_output T = unlines (fancy_header # map fancy_line T)"

definition grep_output :: "string \<Rightarrow> string \<Rightarrow> string" where
  "grep_output p input = unlines (filter (py_in p) (text_lines input))"

section \<open>Commands\<close>

definition ok_result :: "string \<Rightarrow> proc_result" where
  "ok_result out = \<lparr>rc = 0, p_out = out, p_err = []\<rparr>"

definition err_result :: "int \<Rightarrow> string \<Rightarrow> proc_result" where
  "err_result code msg = \<lparr>rc = code, p_out = [], p_err = msg\<rparr>"

definition is_cmd3 :: "string \<Rightarrow> string list \<Rightarrow> bool" where
  "is_cmd3 prog argv \<longleftrightarrow> length argv = 3 \<and> take 2 argv = [prog, ''-n'']"

definition lxc_answer :: "ctable \<Rightarrow> string list \<Rightarrow> string \<Rightarrow> proc_result option" where
  "lxc_answer T argv input =
     (if argv = [''/usr/bin/lxc-ls''] then Some (ok_result (ls_output T))
      else if argv = [''/usr/bin/lxc-ls'', ''--fancy''] then Some (ok_result (fancy_output T))
      else if argv \<noteq> [] \<and> hd argv = ''grep'' then
        (if length argv = 2
         then (let out = grep_output (argv ! 1) input in
               Some \<lparr>rc = (if out = [] then 1 else 0), p_out = out, p_err = []\<rparr>)
         else Some (err_result 2 ''grep: No such file or directory''))
      else if is_cmd3 ''/usr/bin/lxc-stop'' argv then
        (case map_of T (argv ! 2) of
           Some RUNNING \<Rightarrow> Some (ok_result [])
         | Some STOPPED \<Rightarrow> Some (err_result 2 (argv ! 2 @ '' is not running''))
         | None \<Rightarrow> Some (err_result 1 (argv ! 2 @ '' is not defined'')))
      else if is_cmd3 ''/usr/bin/lxc-destroy'' argv then
        (case map_of T (argv ! 2) of
           Some STOPPED \<Rightarrow> Some (ok_result [])
         | Some RUNNING \<Rightarrow> Some (err_result 1 (argv ! 2 @ '' is running''))
         | None \<Rightarrow> Some (err_result 1 (argv ! 2 @ '' does not exist'')))
      else None)"

definition lxc_apply :: "ctable \<Rightarrow> string list \<Rightarrow> ctable" where
  "lxc_apply T argv =
     (if is_cmd3 ''/usr/bin/lxc-stop'' argv \<and> map_of T (argv ! 2) = Some RUNNING
      then AList.update (argv ! 2) STOPPED T
      else if is_cmd3 ''/usr/bin/lxc-destroy'' argv \<and> map_of T (argv ! 2) = Some STOPPED
      then AList.delete (argv ! 2) T
      else T)"

definition lxc_state :: "ctable \<Rightarrow> string list list \<Rightarrow> ctable" where
  "lxc_state T0 h = foldl lxc_apply T0 h"

definition lxc_world :: "ctable \<Rightarrow> string list list \<Rightarrow> string list \<Rightarrow> string \<Rightarrow> proc_result option" where
  "lxc_world T0 h argv input = lxc_answer (lxc_state T0 h) argv input"

text \<open>
  A host whose only external programs are the toolkit and \<open>grep\<close>, before any command
  ran; the other inputs are fixed placeholders.
\<close>

definition lxc_host :: "ctable \<Rightarrow> sys" where
  "lxc_host T =
     \<lparr>run_proc = lxc_world T, trace = [], printed = [], rand_src = (\<lambda>_. 0), draws = 0,
      crypt_fn = (\<lambda>pw salt. salt @ pw), files = (\<lambda>_. None),
      platform_str = ''Linux-5.15.0-generic-x86_64-with-Ubuntu-22.04-jammy'',
      machine_str = ''x86_64''\<rparr>"

section \<open>Names the pipeline cannot confuse\<close>

text \<open>
  A plain container name: non-empty, made of lower-case letters, digits, \<open>-\<close>,
  \<open>_\<close> and \<open>.\<close>. Such a name contains no blank, no newline and no upper-case
  letter, so it is one argument after \<open>split()\<close>, one token of a listing line, and
  cannot meet the header or a state marker.
\<close>

definition plain_char :: "char \<Rightarrow> bool" where
  "plain_char c \<longleftrightarrow> c \<in> set ''abcdefghijklmnopqrstuvwxyz0123456789-_.''"

definition plain_name :: "string \<Rightarrow> bool" where
  "plain_name n \<longleftrightarrow> n \<noteq> [] \<and> list_all plain_char n"

text \<open>
  A well-formed table: plain, pairwise distinct names; and a name that is
  \<^emph>\<open>unambiguous\<close> in it: no other container's name contains it.
\<close>

definition wf_table :: "ctable \<Rightarrow> bool" where
  "wf_table T \<longleftrightarrow> distinct (map fst T) \<and> list_all plain_name (map fst T)"

definition unambiguous :: "string \<Rightarrow> ctable \<Rightarrow> bool" where
  "unambiguous n T \<longleftrightarrow> (\<forall>m\<in>set (map fst T). m \<noteq> n \<longrightarrow> \<not> py_in n m)"

definition upper_or_blank :: "char \<Rightarrow> bool" where
  "upper_or_blank c \<longleftrightarrow> c = CHR '' '' \<or> (let k = (of_char c :: nat) in 65 \<le> k \<and> k \<le> 90)"

section \<open>Lemmas\<close>

lemma py_split_sep_unlines:
  "\<forall>l\<in>set ls. CHR 0x0A \<notin> set l \<Longrightarrow> py_split_sep (CHR 0x0A) (unlines ls) = ls @ [[]]"
  by (induction ls) (simp_all add: unlines_def py_split_sep_line)

lemma text_lines_unlines:
  "\<forall>l\<in>set ls. CHR 0x0A \<notin> set l \<Longrightarrow> text_lines (unlines ls) = ls"
  by (simp add: text_lines_def py_split_sep_unlines)

lemma py_in_sep:
  assumes c: "c \<notin> set x"
  shows "py_in x (a @ c # b) \<longleftrightarrow> py_in x a \<or> py_in x b"
proof
  assume "py_in x (a @ c # b)"
  then have "sublist x a \<or> sublist x (c # b) \<or>
      (\<exists>x1 x2. x = x1 @ x2 \<and> suffix x1 a \<and> prefix x2 (c # b))"
    by (simp add: py_in_def sublist_append)
  then show "py_in x a \<or> py_in x b"
  proof (elim disjE exE conjE)
    assume "sublist x (c # b)"
    with c show ?thesis
      by (cases x) (auto simp: py_in_def sublist_Cons_right)
  next
    fix x1 x2
    assume x: "x = x1 @ x2" and s: "suffix x1 a" and p: "prefix x2 (c # b)"
    from x c p have "x2 = []" by (cases x2) auto
    with x s show ?thesis by (simp add: py_in_def suffix_imp_sublist)
  qed (simp add: py_in_def)
next
  assume "py_in x a \<or> py_in x b"
  then show "py_in x (a @ c # b)"
    by (auto simp: py_in_def sublist_append sublist_Cons_right)
qed

lemma py_in_set: "py_in x s \<Longrightarrow> set x \<subseteq> set s"
  by (simp add: py_in_def set_mono_sublist)

lemma py_in_join: "x \<in> set xs \<Longrightarrow> py_in x (py_join sep xs)"
  by (induction sep xs rule: py_join.induct) (auto simp: py_in_def sublist_append)

lemma plain_char_not_space: "plain_char c \<Longrightarrow> \<not> py_isspace c \<and> c \<noteq> CHR 0x0A"
  by (auto simp: plain_char_def py_isspace_def py_whitespace_def)

lemma plain_nameD: "plain_name n \<Longrightarrow> c \<in> set n \<Longrightarrow> plain_char c"
  by (simp add: plain_name_def list_all_iff)

lemma plain_char_not_upper: "plain_char c \<Longrightarrow> \<not> upper_or_blank c"
  by (auto simp: plain_char_def upper_or_blank_def)

lemma plain_not_in_upper:
  assumes n: "plain_name n" and s: "list_all upper_or_blank s"
  shows "\<not> py_in n s"
proof
  assume "py_in n s"
  then have "set n \<subseteq> set s" by (rule py_in_set)
  moreover from n obtain c where "c \<in> set n" by (cases n) (auto simp: plain_name_def)
  ultimately have "c \<in> set s" and "plain_char c"
    using n by (auto intro: plain_nameD)
  with s plain_char_not_upper show False by (auto simp: list_all_iff)
qed

lemma upper_fancy_header: "list_all upper_or_blank fancy_header"
  by (simp add: fancy_header_def upper_or_blank_def)

lemma upper_state_str: "list_all upper_or_blank (state_str st)"
  by (cases st) (simp_all add: state_str_def upper_or_blank_def)

lemma plain_name_chars: "plain_name n \<Longrightarrow> \<forall>c\<in>set n. \<not> py_isspace c \<and> c \<noteq> CHR 0x0A"
  using plain_char_not_space plain_nameD by blast

lemma plain_name_split [simp]: "plain_name n \<Longrightarrow> py_split n = [n]"
  using plain_name_chars [of n] by (simp add: py_split_word plain_name_def)

lemma grep_argv_plain [simp]: "plain_name n \<Longrightarrow> py_split (''grep '' @ n) = [''grep'', n]"
proof -
  assume "plain_name n"
  then have "split_ws_acc [] n = [n]" by (simp flip: py_split_def)
  then show ?thesis by (simp add: py_split_def py_isspace_def py_whitespace_def)
qed

lemma upper_not_in_plain:
  assumes x: "x \<noteq> []" "list_all upper_or_blank x" and n: "plain_name n"
  shows "\<not> py_in x n"
proof
  assume "py_in x n"
  then have sub: "set x \<subseteq> set n" by (rule py_in_set)
  from x(1) obtain c cs where xc: "x = c # cs" by (cases x) auto
  with x(2) have "upper_or_blank c" by simp
  moreover from xc sub have "c \<in> set n" by simp
  then have "plain_char c" by (rule plain_nameD [OF n])
  ultimately show False using plain_char_not_upper by blast
qed

lemma fancy_line_py_in:
  assumes n: "plain_name n"
  shows "py_in n (fancy_line e) \<longleftrightarrow> py_in n (fst e)"
proof -
  have blank: "CHR '' '' \<notin> set n"
  proof
    assume "CHR '' '' \<in> set n"
    with plain_name_chars [OF n] have "\<not> py_isspace (CHR '' '')" by blast
    then show False by simp
  qed
  have line: "fancy_line e = fst e @ CHR '' '' # state_str (snd e)"
    by (simp add: fancy_line_def)
  have "py_in n (fancy_line e) \<longleftrightarrow> py_in n (fst e) \<or> py_in n (state_str (snd e))"
    unfolding line using blank by (rule py_in_sep)
  with plain_not_in_upper [OF n upper_state_str] show ?thesis by blast
qed

lemma filter_fst_single:
  "distinct (map fst T) \<Longrightarrow> map_of T n = Some st \<Longrightarrow> filter (\<lambda>e. fst e = n) T = [(n, st)]"
proof (induction T)
  case Nil
  then show ?case by simp
next
  case (Cons e T)
  obtain a b where e: "e = (a, b)" by (cases e)
  show ?case
  proof (cases "a = n")
    case True
    from Cons.prems(1) e True have "n \<notin> fst ` set T" by simp
    then have "filter (\<lambda>e. fst e = n) T = []" by (auto simp: filter_empty_conv)
    moreover from Cons.prems(2) e True have "b = st" by simp
    ultimately show ?thesis using e True by simp
  next
    case False
    with Cons.prems e have "distinct (map fst T)" and "map_of T n = Some st" by simp_all
    then have "filter (\<lambda>e. fst e = n) T = [(n, st)]" by (rule Cons.IH)
    with e False show ?thesis by simp
  qed
qed

lemma no_newline_fancy: "plain_name (fst e) \<Longrightarrow> CHR 0x0A \<notin> set (fancy_line e)"
  using plain_name_chars [of "fst e"]
  by (cases "snd e") (auto simp: fancy_line_def state_str_def)

lemma text_lines_fancy:
  assumes wf: "wf_table T"
  shows "text_lines (fancy_output T) = fancy_header # map fancy_line T"
proof -
  from wf have "\<forall>e\<in>set T. plain_name (fst e)"
    by (auto simp: wf_table_def list_all_iff)
  then have "\<forall>l\<in>set (map fancy_line T). CHR 0x0A \<notin> set l"
    using no_newline_fancy by auto
  moreover have "CHR 0x0A \<notin> set fancy_header"
    by (simp add: fancy_header_def)
  ultimately show ?thesis
    by (simp add: fancy_output_def text_lines_unlines)
qed

text \<open>The first \<open>grep\<close> of the pipeline keeps exactly the container's own line.\<close>

lemma grep_name_fancy:
  assumes wf: "wf_table T" and st: "map_of T n = Some st" and u: "unambiguous n T"
    and n: "plain_name n"
  shows "grep_output n (fancy_output T) = unlines [fancy_line (n, st)]"
proof -
  have "\<forall>e\<in>set T. py_in n (fancy_line e) \<longleftrightarrow> fst e = n"
  proof
    fix e assume e: "e \<in> set T"
    have "py_in n (fst e) \<longleftrightarrow> fst e = n"
      using u e by (cases "fst e = n") (auto simp: unambiguous_def py_in_def)
    then show "py_in n (fancy_line e) \<longleftrightarrow> fst e = n"
      by (simp add: fancy_line_py_in [OF n])
  qed
  then have "filter (\<lambda>e. py_in n (fancy_line e)) T = filter (\<lambda>e. fst e = n) T"
    by (simp cong: filter_cong)
  also have "\<dots> = [(n, st)]"
    using wf st by (simp add: wf_table_def filter_fst_single)
  finally have f: "filter (\<lambda>e. py_in n (fancy_line e)) T = [(n, st)]" .
  have h: "\<not> py_in n fancy_header"
    by (rule plain_not_in_upper [OF n upper_fancy_header])
  show ?thesis
    using f h by (simp add: grep_output_def text_lines_fancy [OF wf] filter_map comp_def)
qed

text \<open>The second \<open>grep\<close> keeps that line exactly when the state is \<open>RUNNING\<close>.\<close>

lemma grep_running_line:
  assumes n: "plain_name n"
  shows "grep_output ''RUNNING'' (unlines [fancy_line (n, st)]) =
           (if st = RUNNING then unlines [fancy_line (n, st)] else [])"
proof -
  have nl: "CHR 0x0A \<notin> set (fancy_line (n, st))"
    using n by (simp add: no_newline_fancy)
  have "\<not> py_in ''RUNNING'' n"
    by (rule upper_not_in_plain [OF _ _ n]) (simp_all add: upper_or_blank_def)
  moreover have "py_in ''RUNNING'' (fancy_line (n, st)) \<longleftrightarrow>
      py_in ''RUNNING'' n \<or> py_in ''RUNNING'' (state_str st)"
    by (simp add: fancy_line_def py_in_sep)
  moreover have "py_in ''RUNNING'' (state_str st) \<longleftrightarrow> st = RUNNING"
    by (cases st) (simp_all add: state_str_def py_in_def sublist_code)
  ultimately have "py_in ''RUNNING'' (fancy_line (n, st)) \<longleftrightarrow> st = RUNNING"
    by blast
  moreover have "text_lines (unlines [fancy_line (n, st)]) = [fancy_line (n, st)]"
    using nl by (simp add: text_lines_unlines)
  moreover have "unlines [] = []"
    by (simp add: unlines_def)
  ultimately show ?thesis
    by (simp add: grep_output_def)
qed

lemma py_in_ls_output: "n \<in> set (map fst T) \<Longrightarrow> py_in n (ls_output T)"
  using py_in_join [of n "map fst T" "'' ''"]
  by (auto simp: ls_output_def py_in_def sublist_append)

lemma lxc_state_snoc [simp]: "lxc_state T (h @ [argv]) = lxc_apply (lxc_state T h) argv"
  by (simp add: lxc_state_def)

lemma lxc_state_Nil [simp]: "lxc_state T [] = T"
  by (simp add: lxc_state_def)

lemma lxc_apply_other:
  "\<not> is_cmd3 ''/usr/bin/lxc-stop'' argv \<Longrightarrow> \<not> is_cmd3 ''/usr/bin/lxc-destroy'' argv \<Longrightarrow>
   lxc_apply T argv = T"
  by (simp add: lxc_apply_def)

end
