(* ===== verification/Nuke_Spec.thy ===== *)
theory Nuke_Spec
  imports Nuke Lxc_Toolkit
begin

text \<open>
  The Destroyer against its contract (spec section 4.3): after a run the named
  container is no longer in the toolkit's table, whether it was running or stopped, and a
  container that is not there is left alone. \<open>destroy_spec\<close> is that contract on
  the table of \<open>Lxc_Toolkit\<close>; the theorems run \<open>nuke_main\<close> on a host whose
  commands answer from that table and compare the table the started commands produce
  with the contract, for each state of the container. The witnesses of the
  Destroyer's branch theorems of \<open>Nuke\<close> are here too, on a concrete host.
\<close>

definition destroy_spec :: "string \<Rightarrow> ctable \<Rightarrow> ctable" where
  "destroy_spec n T = AList.delete n T"

definition demo_table :: ctable where
  "demo_table = [(''web'', RUNNING), (''db'', STOPPED)]"

definition broken_host :: sys where
  "broken_host =
     (lxc_host [])\<lparr>run_proc := (\<lambda>h argv inp. Some (err_result 1 ''lxc-ls: permission denied''))\<rparr>"

lemma stop_argv_plain [simp]:
  "plain_name n \<Longrightarrow> stop_argv n = [''/usr/bin/lxc-stop'', ''-n'', n]"
proof -
  assume "plain_name n"
  then have "split_ws_acc [] n = [n]" by (simp flip: py_split_def)
  then show ?thesis by (simp add: py_split_def LXC_stop_def py_isspace_def py_whitespace_def)
qed

lemma destroy_argv_plain [simp]:
  "plain_name n \<Longrightarrow> destroy_argv n = [''/usr/bin/lxc-destroy'', ''-n'', n]"
proof -
  assume "plain_name n"
  then have "split_ws_acc [] n = [n]" by (simp flip: py_split_def)
  then show ?thesis by (simp add: py_split_def LXC_destroy_def py_isspace_def py_whitespace_def)
qed

lemma lxc_answer_simps:
  "lxc_answer T ls_argv inp = Some (ok_result (ls_output T))"
  "lxc_answer T fancy_argv inp = Some (ok_result (fancy_output T))"
  "lxc_answer T [''grep'', p] inp =
     Some \<lparr>rc = (if grep_output p inp = [] then 1 else 0), p_out = grep_output p inp, p_err = []\<rparr>"
  "lxc_answer T [''/usr/bin/lxc-stop'', ''-n'', n] inp =
     (case map_of T n of
        Some RUNNING \<Rightarrow> Some (ok_result [])
      | Some STOPPED \<Rightarrow> Some (err_result 2 (n @ '' is not running''))
      | None \<Rightarrow> Some (err_result 1 (n @ '' is not defined'')))"
  "lxc_answer T [''/usr/bin/lxc-destroy'', ''-n'', n] inp =
     (case map_of T n of
        Some STOPPED \<Rightarrow> Some (ok_result [])
      | Some RUNNING \<Rightarrow> Some (err_result 1 (n @ '' is running''))
      | None \<Rightarrow> Some (err_result 1 (n @ '' does not exist'')))"
  by (simp_all add: lxc_answer_def ls_argv_def fancy_argv_def is_cmd3_def Let_def numeral_2_eq_2
      split: option.split cstate.split)

lemma lxc_apply_simps:
  "lxc_apply T ls_argv = T"
  "lxc_apply T fancy_argv = T"
  "lxc_apply T [''grep'', p] = T"
  "lxc_apply T [''/usr/bin/lxc-stop'', ''-n'', n] =
     (if map_of T n = Some RUNNING then AList.update n STOPPED T else T)"
  "lxc_apply T [''/usr/bin/lxc-destroy'', ''-n'', n] =
     (if map_of T n = Some STOPPED then AList.delete n T else T)"
  by (simp_all add: lxc_apply_def ls_argv_def fancy_argv_def is_cmd3_def numeral_2_eq_2)

lemma running_argv_grep: "running_argv = [''grep'', ''RUNNING'']"
  by (simp add: running_argv_def)

lemmas lxc_run = running_argv_grep lxc_host_def lxc_world_def lxc_state_def lxc_answer_simps lxc_apply_simps
  ok_result_def err_result_def

text \<open>C3: On a well-formed toolkit state, destroying a stopped container removes exactly that container from the table, as the abstract specification AList.delete says.\<close>

theorem nuke_destroys_stopped:
  assumes wf: "wf_table T" and n: "plain_name n" and u: "unambiguous n T"
    and st: "map_of T n = Some STOPPED"
  shows "fst (nuke_main n (lxc_host T)) = Inl SystemExit \<and>
         lxc_state T (trace (snd (nuke_main n (lxc_host T)))) = destroy_spec n T"
proof -
  from st have "n \<in> set (map fst T)"
    by (force dest: map_of_SomeD)
  then have ls: "py_in n (ls_output T)"
    by (rule py_in_ls_output)
  have g: "grep_argv n = [''grep'', n]" and d: "destroy_argv n = [''/usr/bin/lxc-destroy'', ''-n'', n]"
    by (rule grep_argv_plain [OF n], rule destroy_argv_plain [OF n])
  show ?thesis
    using ls st n g d grep_name_fancy [OF wf st u n] grep_running_line [OF n, of STOPPED]
    by (simp add: nuke_defs py_run lxc_run destroy_spec_def py_in_def)
qed

text \<open>C4: On a well-formed toolkit state, a running container is stopped but never destroyed: the table after the run holds it as STOPPED, which is not the specification's deletion.\<close>

theorem nuke_running_survives:
  assumes wf: "wf_table T" and n: "plain_name n" and u: "unambiguous n T"
    and st: "map_of T n = Some RUNNING"
  shows "fst (nuke_main n (lxc_host T)) = Inl SystemExit \<and>
         lxc_state T (trace (snd (nuke_main n (lxc_host T)))) = AList.update n STOPPED T \<and>
         lxc_state T (trace (snd (nuke_main n (lxc_host T)))) \<noteq> destroy_spec n T"
proof -
  from st have "n \<in> set (map fst T)"
    by (force dest: map_of_SomeD)
  then have ls: "py_in n (ls_output T)"
    by (rule py_in_ls_output)
  have g: "grep_argv n = [''grep'', n]" and d: "stop_argv n = [''/usr/bin/lxc-stop'', ''-n'', n]"
    by (rule grep_argv_plain [OF n], rule stop_argv_plain [OF n])
  have ne: "AList.update n STOPPED T \<noteq> destroy_spec n T"
  proof
    assume "AList.update n STOPPED T = destroy_spec n T"
    then have "map_of (AList.update n STOPPED T) n = map_of (AList.delete n T) n"
      by (simp add: destroy_spec_def)
    then show False by (simp add: update_conv' delete_conv')
  qed
  have "py_in ''RUNNING'' ((n @ '' '') @ ''RUNNING'' @ [CHR 0x0A])"
    unfolding py_in_def by (rule sublist_appendI)
  then have "py_in ''RUNNING'' (unlines [fancy_line (n, RUNNING)])"
    by (simp add: unlines_def fancy_line_def state_str_def)
  then show ?thesis
    using ls st n g d ne grep_name_fancy [OF wf st u n] grep_running_line [OF n, of RUNNING]
    by (simp add: nuke_defs py_run lxc_run)
qed

text \<open>C33: The existence test is a substring test on the lxc-ls listing: for every table, any substring of a listed container name counts as an existing container.\<close>

theorem container_exists_substring:
  assumes "m \<in> set (map fst T)" "sublist n m"
  shows "container_exists n (Some (ls_output T)) s = (Inr True, s)"
proof -
  have "sublist n (ls_output T)"
    using assms(2) py_in_ls_output [OF assms(1)] unfolding py_in_def by (rule sublist_order.order.trans)
  then show ?thesis by (simp add: container_exists_def py_in_def pret_def)
qed

section \<open>Witnesses on a concrete host\<close>

text \<open>
  The host \<open>lxc_host demo_table\<close> runs a container \<open>web\<close> and has a stopped
  container \<open>db\<close>; \<open>mail\<close> does not exist. \<open>broken_host\<close> answers every
  command with an error on stderr.
\<close>

lemmas demo_eval = demo_table_def wf_table_def plain_name_def plain_char_def unambiguous_def
  py_in_def sublist_code lxc_run

theorem nuke_destroys_stopped_witness:
  "wf_table demo_table \<and> plain_name ''db'' \<and> unambiguous ''db'' demo_table \<and>
   map_of demo_table ''db'' = Some STOPPED \<and>
   lxc_state demo_table (trace (snd (nuke_main ''db'' (lxc_host demo_table)))) =
     [(''web'', RUNNING)]"
  using nuke_destroys_stopped [of demo_table "''db''"]
  by (simp add: demo_eval destroy_spec_def)

theorem nuke_running_survives_witness:
  "wf_table demo_table \<and> plain_name ''web'' \<and> unambiguous ''web'' demo_table \<and>
   map_of demo_table ''web'' = Some RUNNING \<and>
   lxc_state demo_table (trace (snd (nuke_main ''web'' (lxc_host demo_table)))) =
     [(''web'', STOPPED), (''db'', STOPPED)]"
  using nuke_running_survives [of demo_table "''web''"]
  by (simp add: demo_eval)

theorem nuke_absent_witness:
  "run_proc (lxc_host demo_table) (trace (lxc_host demo_table)) ls_argv []
     = Some (ok_result (ls_output demo_table)) \<and>
   p_err (ok_result (ls_output demo_table)) = [] \<and>
   \<not> py_in ''mail'' (p_out (ok_result (ls_output demo_table))) \<and>
   fst (nuke_main ''mail'' (lxc_host demo_table)) = Inl SystemExit"
  using nuke_absent [of "lxc_host demo_table" "ok_result (ls_output demo_table)" "''mail''"]
  by (simp add: demo_eval ls_output_def)

theorem nuke_not_running_witness:
  "run_proc (lxc_host demo_table) [] ls_argv [] = Some (ok_result (ls_output demo_table)) \<and>
   run_proc (lxc_host demo_table) [ls_argv] fancy_argv []
     = Some (ok_result (fancy_output demo_table)) \<and>
   run_proc (lxc_host demo_table) [ls_argv, fancy_argv] (grep_argv ''db'')
       (fancy_output demo_table)
     = Some \<lparr>rc = 0, p_out = unlines [fancy_line (''db'', STOPPED)], p_err = []\<rparr> \<and>
   run_proc (lxc_host demo_table) [ls_argv, fancy_argv, grep_argv ''db''] running_argv
       (unlines [fancy_line (''db'', STOPPED)])
     = Some \<lparr>rc = 1, p_out = [], p_err = []\<rparr> \<and>
   run_proc (lxc_host demo_table) [ls_argv, fancy_argv, grep_argv ''db'', running_argv]
       (destroy_argv ''db'') [] = Some (ok_result []) \<and>
   py_in ''db'' (ls_output demo_table) \<and>
   last (printed (snd (nuke_main ''db'' (lxc_host demo_table)))) =
     Line (''Container [db] nuked successfully.'')"
  using nuke_not_running [of "lxc_host demo_table" "ok_result (ls_output demo_table)" "''db''"
      "ok_result (fancy_output demo_table)"
      "\<lparr>rc = 0, p_out = unlines [fancy_line (''db'', STOPPED)], p_err = []\<rparr>"
      "\<lparr>rc = 1, p_out = [], p_err = []\<rparr>" "ok_result []"]
  by (simp add: demo_eval ls_output_def fancy_output_def grep_output_def unlines_def
      py_split_def py_isspace_def py_whitespace_def LXC_stop_def LXC_destroy_def
      text_lines_def fancy_line_def state_str_def fancy_header_def)

theorem nuke_running_never_destroys_witness:
  "run_proc (lxc_host demo_table) [] ls_argv [] = Some (ok_result (ls_output demo_table)) \<and>
   run_proc (lxc_host demo_table) [ls_argv] fancy_argv []
     = Some (ok_result (fancy_output demo_table)) \<and>
   run_proc (lxc_host demo_table) [ls_argv, fancy_argv] (grep_argv ''web'')
       (fancy_output demo_table)
     = Some \<lparr>rc = 0, p_out = unlines [fancy_line (''web'', RUNNING)], p_err = []\<rparr> \<and>
   run_proc (lxc_host demo_table) [ls_argv, fancy_argv, grep_argv ''web''] running_argv
       (unlines [fancy_line (''web'', RUNNING)])
     = Some \<lparr>rc = 0, p_out = unlines [fancy_line (''web'', RUNNING)], p_err = []\<rparr> \<and>
   run_proc (lxc_host demo_table) [ls_argv, fancy_argv, grep_argv ''web'', running_argv]
       (stop_argv ''web'') [] = Some (ok_result []) \<and>
   py_in ''web'' (ls_output demo_table) \<and>
   last (printed (snd (nuke_main ''web'' (lxc_host demo_table)))) =
     Line (''An error occurred trying to stop container [web].'')"
  using nuke_running_never_destroys [of "lxc_host demo_table" "ok_result (ls_output demo_table)"
      "''web''" "ok_result (fancy_output demo_table)"
      "\<lparr>rc = 0, p_out = unlines [fancy_line (''web'', RUNNING)], p_err = []\<rparr>"
      "\<lparr>rc = 0, p_out = unlines [fancy_line (''web'', RUNNING)], p_err = []\<rparr>"
      "ok_result []"]
  by (simp add: demo_eval ls_output_def fancy_output_def grep_output_def unlines_def
      py_split_def py_isspace_def py_whitespace_def LXC_stop_def LXC_destroy_def
      text_lines_def fancy_line_def state_str_def fancy_header_def)

theorem nuke_list_error_witness:
  "run_proc broken_host (trace broken_host) ls_argv [] =
     Some (err_result 1 ''lxc-ls: permission denied'') \<and>
   p_err (err_result 1 ''lxc-ls: permission denied'') \<noteq> [] \<and>
   exit_status (fst (nuke_main ''web'' broken_host)) = 0"
  using nuke_list_error [of broken_host "err_result 1 ''lxc-ls: permission denied''" "''web''"]
  by (simp add: broken_host_def lxc_host_def err_result_def)

theorem container_exists_substring_witness:
  "container_exists ''web'' (Some (ls_output [(''webserver'', RUNNING)])) (lxc_host [(''webserver'', RUNNING)])
     = (Inr True, lxc_host [(''webserver'', RUNNING)])"
  using container_exists_substring [of "''webserver''" "[(''webserver'', RUNNING)]" "''web''"
      "lxc_host [(''webserver'', RUNNING)]"]
  by (simp add: sublist_code)

end
