(* ===== verification/Users.thy ===== *)
theory Users
  imports Py_Process
begin

text \<open>
  The users the bootstrapper creates (\<open>lxc_bootstrap.py\<close>): the \<open>User\<close> class with its
  \<open>shadow_password\<close> property, which draws a random salt, and \<open>get_users\<close>, which reads
  users from the datafile given with \<open>--users\<close>.
\<close>

section \<open>The salt alphabet\<close>

definition ascii_letters :: string where
  "ascii_letters = ''abcdefghijklmnopqrstuvwxyzABCDEFGHIJKLMNOPQRSTUVWXYZ''"

definition digits :: string where
  "digits = ''0123456789''"

definition SHADOW_SALT_CHARSET :: string where
  "SHADOW_SALT_CHARSET = ascii_letters @ digits"

section \<open>Class \<open>User\<close>\<close>

text \<open>
  The attributes of a \<open>User\<close>. The salt is a string or \<open>None\<close>; \<open>admin\<close> is the
  integer the datafile gives (the built-in user has \<open>True\<close>, that is 1).
\<close>

record user =
  u_name :: string
  u_password :: string
  u_salt :: "string option"
  u_admin :: int

definition User :: "string \<Rightarrow> string \<Rightarrow> string option \<Rightarrow> int \<Rightarrow> user" where
  "User name password salt admin =
     \<lparr>u_name = name, u_password = password, u_salt = salt, u_admin = admin\<rparr>"

text \<open>
  The loop \<open>for _ in range(8)\<close> of \<open>shadow_password\<close>, on the current salt. The
  right-hand side of \<open>self.salt += choice(...)\<close> is drawn before the addition; on a
  salt of \<open>None\<close> the addition raises \<open>TypeError\<close>, which is caught and replaced by a
  second draw, so the first character drawn is lost.
\<close>

fun salt_loop :: "nat \<Rightarrow> string option \<Rightarrow> string option py" where
  "salt_loop 0 salt = pret salt"
| "salt_loop (Suc k) salt =
     pbind (random_choice SHADOW_SALT_CHARSET) (\<lambda>c.
       case salt of
         None \<Rightarrow> pbind (random_choice SHADOW_SALT_CHARSET) (\<lambda>c'. salt_loop k (Some [c']))
       | Some t \<Rightarrow> salt_loop k (Some (t @ [c])))"

text \<open>The guard \<open>not self.salt or len(self.salt) != 8\<close>.\<close>

definition salt_needed :: "string option \<Rightarrow> bool" where
  "salt_needed salt \<longleftrightarrow> \<not> py_truthy salt \<or> length (the salt) \<noteq> 8"

text \<open>
  The property \<open>user.shadow_password\<close>: the hash and the user with its (possibly new)
  salt, since the property assigns \<open>self.salt\<close>.
\<close>

definition shadow_password :: "user \<Rightarrow> (string \<times> user) py" where
  "shadow_password u =
     pbind (if salt_needed (u_salt u) then salt_loop 8 (u_salt u) else pret (u_salt u)) (\<lambda>salt.
       pbind (crypt (u_password u) (''$6$'' @ py_str_opt salt @ ''$'')) (\<lambda>h.
         pret (h, u\<lparr>u_salt := salt\<rparr>)))"

section \<open>\<open>get_users\<close>\<close>

text \<open>
  One row of the datafile: \<open>row.split(':')\<close> must give four fields, else \<open>IOError\<close>;
  the last is read by \<open>int()\<close> (which raises \<open>ValueError\<close> on anything but an integer).
\<close>

definition parse_user_row :: "string \<Rightarrow> exc + user" where
  "parse_user_row row =
     (let data = py_split_sep (CHR '':'') row in
      if length data \<noteq> 4 then Inl (IOError ''Invalid data provided from datafile.'')
      else (case py_int (data ! 3) of
              None \<Rightarrow> Inl (ValueError (''invalid literal for int() with base 10: '' @ py_repr (data ! 3)))
            | Some a \<Rightarrow> Inr (User (data ! 0) (data ! 1) (Some (data ! 2)) a)))"

text \<open>The loop over the rows: the first bad row raises, before any later row is read.\<close>

fun users_of_rows :: "string list \<Rightarrow> exc + user list" where
  "users_of_rows [] = Inr []"
| "users_of_rows (row # rows) =
     (case parse_user_row row of
        Inl e \<Rightarrow> Inl e
      | Inr u \<Rightarrow> (case users_of_rows rows of Inl e \<Rightarrow> Inl e | Inr us \<Rightarrow> Inr (u # us)))"

definition get_users :: "string option \<Rightarrow> user list py" where
  "get_users user_datafile =
     (if py_truthy user_datafile
      then pbind (open_lines (the user_datafile)) (\<lambda>rows.
             case users_of_rows rows of Inl e \<Rightarrow> praise e | Inr us \<Rightarrow> pret us)
      else pret [])"

text \<open>The character the \<open>i\<close>-th draw from the random source selects.\<close>

definition charset_at :: "sys \<Rightarrow> nat \<Rightarrow> char" where
  "charset_at s i = SHADOW_SALT_CHARSET ! (rand_src s i mod length SHADOW_SALT_CHARSET)"

section \<open>Lemmas\<close>

lemma length_SHADOW_SALT_CHARSET [simp]: "length SHADOW_SALT_CHARSET = 62"
  by (simp add: SHADOW_SALT_CHARSET_def ascii_letters_def Users.digits_def)

lemma SHADOW_SALT_CHARSET_not_Nil [simp]: "SHADOW_SALT_CHARSET \<noteq> []"
  by (simp add: SHADOW_SALT_CHARSET_def ascii_letters_def)

lemma charset_at_in: "charset_at s i \<in> set SHADOW_SALT_CHARSET"
  unfolding charset_at_def
  by (rule nth_mem) simp

lemma charset_at_draws [simp]: "charset_at (s\<lparr>draws := d\<rparr>) = charset_at s"
  by (simp add: charset_at_def fun_eq_iff)

lemma random_choice_charset:
  "random_choice SHADOW_SALT_CHARSET s = (Inr (charset_at s (draws s)), s\<lparr>draws := Suc (draws s)\<rparr>)"
  by (simp add: random_choice_def charset_at_def)

lemma salt_loop_Some:
  "salt_loop k (Some t) s =
     (Inr (Some (t @ map (charset_at s) [draws s..<draws s + k])), s\<lparr>draws := draws s + k\<rparr>)"
proof (induction k arbitrary: t s)
  case 0
  then show ?case by (simp add: pret_def)
next
  case (Suc k)
  have "[draws s..<draws s + Suc k] = draws s # [Suc (draws s)..<Suc (draws s) + k]"
    by (simp add: upt_conv_Cons)
  then show ?case
    by (simp add: pbind_def random_choice_charset Suc.IH)
qed

lemma salt_loop_None:
  "salt_loop (Suc k) None s =
     (Inr (Some (map (charset_at s) [Suc (draws s)..<draws s + Suc (Suc k)])),
      s\<lparr>draws := draws s + Suc (Suc k)\<rparr>)"
proof -
  have "[Suc (draws s)..<draws s + Suc (Suc k)] = Suc (draws s) # [Suc (Suc (draws s))..<Suc (Suc (draws s)) + k]"
    by (simp add: upt_conv_Cons)
  then show ?thesis
    by (simp add: pbind_def random_choice_charset salt_loop_Some)
qed

lemma shadow_password_None:
  assumes "u_salt u = None"
  shows "shadow_password u s =
     (let t = map (charset_at s) [Suc (draws s)..<draws s + 9] in
      (Inr (crypt_fn s (u_password u) (''$6$'' @ t @ ''$''), u\<lparr>u_salt := Some t\<rparr>),
       s\<lparr>draws := draws s + 9\<rparr>))"
  using assms salt_loop_None [of 7 s]
  by (simp add: shadow_password_def salt_needed_def py_truthy_def pbind_def crypt_def pret_def
      py_str_opt_def numeral_eq_Suc)

lemma shadow_password_Some:
  assumes "u_salt u = Some t" "salt_needed (Some t)"
  shows "shadow_password u s =
     (let t' = t @ map (charset_at s) [draws s..<draws s + 8] in
      (Inr (crypt_fn s (u_password u) (''$6$'' @ t' @ ''$''), u\<lparr>u_salt := Some t'\<rparr>),
       s\<lparr>draws := draws s + 8\<rparr>))"
  using assms salt_loop_Some [of 8 t s]
  by (simp add: shadow_password_def pbind_def crypt_def pret_def py_str_opt_def)

lemma shadow_password_not_needed:
  assumes "\<not> salt_needed (u_salt u)"
  shows "shadow_password u s =
           (Inr (crypt_fn s (u_password u) (''$6$'' @ py_str_opt (u_salt u) @ ''$''), u), s)"
  using assms by (simp add: shadow_password_def pbind_def crypt_def pret_def)

text \<open>C16: A salt of exactly 8 characters is kept: shadow_password draws nothing and hashes with that salt.\<close>

lemma shadow_password_kept:
  assumes "u_salt u = Some t" "length t = 8"
  shows "shadow_password u s = (Inr (crypt_fn s (u_password u) (''$6$'' @ t @ ''$''), u), s)"
proof -
  have "\<not> salt_needed (u_salt u)"
    using assms by (auto simp: salt_needed_def py_truthy_def)
  then show ?thesis using assms(1) by (simp add: shadow_password_not_needed py_str_opt_def)
qed

text \<open>C17: For a salt of None the loop draws 9 random characters and keeps the last 8: the first draw is lost to the TypeError of None + str.\<close>

lemma shadow_password_nine_draws:
  assumes "u_salt u = None"
  shows "draws (snd (shadow_password u s)) = draws s + 9 \<and>
         u_salt (snd (projr (fst (shadow_password u s)))) =
           Some (map (charset_at s) [draws s + 1..<draws s + 9])"
  using assms by (simp add: shadow_password_None Let_def)

lemma framed_salt_loop [framed_intros]: "framed (salt_loop k salt)"
  by (induction k arbitrary: salt) (simp_all add: framed_intros split: option.split)

lemma framed_shadow_password [framed_intros]: "framed (shadow_password u)"
  by (simp add: shadow_password_def framed_intros split: prod.split)

lemma spawns_salt_loop [spawns_intros]: "spawns_only Q (salt_loop k salt)"
  by (induction k arbitrary: salt) (simp_all add: spawns_intros split: option.split)

lemma spawns_shadow_password [spawns_intros]: "spawns_only Q (shadow_password u)"
  by (simp add: shadow_password_def spawns_intros split: prod.split)

text \<open>Whatever the salt, the property returns, and only the salt of the user changes.\<close>

lemma shadow_password_result:
  "\<exists>h u' s'. shadow_password u s = (Inr (h, u'), s')
      \<and> u_name u' = u_name u \<and> u_admin u' = u_admin u
      \<and> trace s' = trace s \<and> printed s' = printed s \<and> run_proc s' = run_proc s"
proof (cases "salt_needed (u_salt u)")
  case True
  show ?thesis
  proof (cases "u_salt u")
    case None
    then show ?thesis by (simp add: shadow_password_None Let_def)
  next
    case (Some t)
    then show ?thesis using True by (simp add: shadow_password_Some Let_def)
  qed
next
  case False
  then show ?thesis by (simp add: shadow_password_not_needed)
qed

text \<open>C13: For a user without a salt (None or empty), shadow_password always returns, draws a salt of exactly 8 characters of the salt alphabet, stores it in the user and hashes the password with $6$salt$.\<close>

lemma shadow_password_fresh_salt:
  assumes "\<not> py_truthy (u_salt u)"
  shows "\<exists>t. fst (shadow_password u s) =
             Inr (crypt_fn s (u_password u) (''$6$'' @ t @ ''$''), u\<lparr>u_salt := Some t\<rparr>)
           \<and> length t = 8 \<and> set t \<subseteq> set SHADOW_SALT_CHARSET"
proof (cases "u_salt u")
  case None
  show ?thesis
    unfolding shadow_password_None [OF None] Let_def
    by (rule exI [of _ "map (charset_at s) [Suc (draws s)..<draws s + 9]"]) (auto simp: charset_at_in)
next
  case (Some t)
  then have us: "u_salt u = Some []" using assms by (simp add: py_truthy_def)
  have sn: "salt_needed (Some [])" by (simp add: salt_needed_def py_truthy_def)
  show ?thesis
    unfolding shadow_password_Some [OF us sn] Let_def
    by (intro exI [of _ "map (charset_at s) [draws s..<draws s + 8]"]) (auto simp: charset_at_in)
qed

text \<open>C15: For a user without a salt, a second access of shadow_password after the first returns the same hash and the same user and draws nothing.\<close>

lemma shadow_password_stable:
  assumes "\<not> py_truthy (u_salt u)" "fst (shadow_password u s) = Inr (h, u')"
  shows "shadow_password u' (snd (shadow_password u s)) = (Inr (h, u'), snd (shadow_password u s))"
proof -
  obtain t s1 where sp: "shadow_password u s =
      (Inr (crypt_fn s (u_password u) (''$6$'' @ t @ ''$''), u\<lparr>u_salt := Some t\<rparr>), s1)"
    and t: "length t = 8" and s1: "crypt_fn s1 = crypt_fn s"
  proof (cases "u_salt u")
    case None
    then show ?thesis
      using that [of "map (charset_at s) [Suc (draws s)..<draws s + 9]"]
      by (simp add: shadow_password_None Let_def)
  next
    case (Some t0)
    then have "t0 = []" using assms(1) by (simp add: py_truthy_def)
    moreover have "salt_needed (Some [])" by (simp add: salt_needed_def py_truthy_def)
    ultimately show ?thesis
      using Some that [of "map (charset_at s) [draws s..<draws s + 8]"]
      by (simp add: shadow_password_Some Let_def)
  qed
  have "\<not> salt_needed (Some t)" using t by (auto simp: salt_needed_def py_truthy_def)
  moreover have "u' = u\<lparr>u_salt := Some t\<rparr>" "h = crypt_fn s (u_password u) (''$6$'' @ t @ ''$'')"
    using assms(2) sp by simp_all
  ultimately show ?thesis
    using sp s1 shadow_password_not_needed [of "u\<lparr>u_salt := Some t\<rparr>" s1]
    by (simp add: py_str_opt_def)
qed

text \<open>C14: A non-empty salt of a length other than 8 is not replaced but extended by 8 random characters, so the stored salt is still of the wrong length and the next access extends it again.\<close>

lemma shadow_password_wrong_length:
  assumes "u_salt u = Some t" "t \<noteq> []" "length t \<noteq> 8"
  shows "\<exists>t'. fst (shadow_password u s) =
             Inr (crypt_fn s (u_password u) (''$6$'' @ t @ t' @ ''$''), u\<lparr>u_salt := Some (t @ t')\<rparr>)
           \<and> length t' = 8 \<and> salt_needed (Some (t @ t'))"
proof -
  have sn: "salt_needed (Some t)" using assms(3) by (simp add: salt_needed_def)
  show ?thesis
    unfolding shadow_password_Some [OF assms(1) sn] Let_def
    by (intro exI [of _ "map (charset_at s) [draws s..<draws s + 8]"])
      (use assms(2) in \<open>simp add: salt_needed_def\<close>)
qed

text \<open>C20: For every user row whose name, password and salt contain no colon, an admin flag True or False, the values the --users help text documents, makes int() raise ValueError, with Python's message quoting the raw field.\<close>

lemma admin_flag_bool_rejected:
  assumes "CHR '':'' \<notin> set n" "CHR '':'' \<notin> set p" "CHR '':'' \<notin> set t"
    and "flag \<in> {''True'', ''False''}"
  shows "parse_user_row (n @ '':'' @ p @ '':'' @ t @ '':'' @ flag @ newline) =
           Inl (ValueError (''invalid literal for int() with base 10: '' @ py_repr (flag @ newline)))"
proof -
  have colon: "CHR '':'' \<notin> set (flag @ newline)" using assms(4) by auto
  have "py_split_sep (CHR '':'') (n @ '':'' @ p @ '':'' @ t @ '':'' @ flag @ newline) =
          [n, p, t, flag @ newline]"
    using assms(1-3) colon by (simp add: py_split_sep_line py_split_sep_word del: append_assoc)
  moreover have "py_int (flag @ newline) = None"
    using assms(4) by (auto simp: py_int_def py_strip_def py_whitespace_def py_isdigit_def)
  ultimately show ?thesis
    by (simp add: parse_user_row_def numeral_eq_Suc)
qed

lemma colon_not_in_int_str: "CHR '':'' \<notin> set (int_str a @ newline)"
  using int_str_chars [of "CHR '':''" a] by (auto simp: py_isdigit_def)

text \<open>C18: A datafile row NAME:PASSWORD:SALT:ADMIN written from fields without a colon and an integer admin flag parses back to the same user.\<close>

lemma parse_user_row_roundtrip:
  assumes "CHR '':'' \<notin> set n" "CHR '':'' \<notin> set p" "CHR '':'' \<notin> set t"
  shows "parse_user_row (n @ '':'' @ p @ '':'' @ t @ '':'' @ int_str a @ newline) =
           Inr (User n p (Some t) a)"
proof -
  have "py_split_sep (CHR '':'') (n @ '':'' @ p @ '':'' @ t @ '':'' @ int_str a @ newline) =
          [n, p, t, int_str a @ newline]"
    using assms colon_not_in_int_str [of a]
    by (simp add: py_split_sep_line py_split_sep_word del: append_assoc)
  moreover have "py_int (int_str a @ newline) = Some a"
    by (rule py_int_int_str) (simp add: py_whitespace_def)
  ultimately show ?thesis
    by (simp add: parse_user_row_def numeral_eq_Suc)
qed

text \<open>C19: The datafile loop returns a list of users exactly when every row parses, and then the users are those of the rows in order.\<close>

lemma users_of_rows_Inr:
  "users_of_rows rows = Inr us \<longleftrightarrow> list_all2 (\<lambda>r u. parse_user_row r = Inr u) rows us"
proof (induction rows arbitrary: us)
  case Nil
  then show ?case by auto
next
  case (Cons r rows)
  show ?case
  proof (cases "parse_user_row r")
    case (Inl e)
    then show ?thesis by (auto simp: list_all2_Cons1)
  next
    case (Inr u)
    have "users_of_rows (r # rows) = Inr us \<longleftrightarrow> (\<exists>zs. users_of_rows rows = Inr zs \<and> us = u # zs)"
      using Inr by (auto split: sum.split)
    also have "\<dots> \<longleftrightarrow> list_all2 (\<lambda>r u. parse_user_row r = Inr u) (r # rows) us"
      using Inr Cons.IH by (auto simp: list_all2_Cons1)
    finally show ?thesis .
  qed
qed

lemma parse_user_row_fields:
  "parse_user_row r = Inr u \<Longrightarrow> count_list r (CHR '':'') = 3"
  by (simp add: parse_user_row_def Let_def length_py_split_sep split: if_splits)

lemma get_users_rows:
  assumes "py_truthy f" "files s (the f) = Some rows"
  shows "get_users f s =
           (case users_of_rows rows of Inl e \<Rightarrow> (Inl e, s) | Inr us \<Rightarrow> (Inr us, s))"
  using assms by (simp add: get_users_def pbind_def open_lines_def praise_def pret_def
      split: sum.split)


end
