(* ===== verification/Container.thy ===== *)
theory Container
  imports Users
begin

text \<open>
  The class \<open>Container\<close> of \<open>lxc_bootstrap.py\<close>: its command templates, \<open>__call__\<close>
  (a command run inside the container through \<open>lxc-attach\<close>), \<open>create\<close>, \<open>start\<close>,
  \<open>bootstrap_users\<close> and \<open>bootstrap_packages\<close>.
\<close>

section \<open>State and command templates\<close>

text \<open>
  The instance attributes. \<open>name\<close> is the string \<open>argparse\<close> gives; the other three are
  strings or \<open>None\<close> (with \<open>--existing\<close> they are not filled in). \<open>attach_cmd\<close> is the
  instance attribute \<open>__init__\<close> computes from the class template.
\<close>

record container =
  c_name :: string
  c_architecture :: "string option"
  c_distribution :: "string option"
  c_release :: "string option"
  attach_cmd :: "string list"

definition create_cmd :: "container \<Rightarrow> string" where
  "create_cmd c =
     ''/usr/bin/lxc-create -t download -n '' @ c_name c @ '' -- -d '' @ py_str_opt (c_distribution c)
       @ '' -r '' @ py_str_opt (c_release c) @ '' -a '' @ py_str_opt (c_architecture c)"

definition start_cmd :: "container \<Rightarrow> string" where
  "start_cmd c = ''lxc-start -n '' @ c_name c"

definition Container :: "string \<Rightarrow> string option \<Rightarrow> string option \<Rightarrow> string option \<Rightarrow> container" where
  "Container name architecture distribution release =
     \<lparr>c_name = name, c_architecture = architecture, c_distribution = distribution,
      c_release = release, attach_cmd = py_split (''/usr/bin/lxc-attach -n '' @ name @ '' -- '')\<rparr>"

section \<open>Operations\<close>

text \<open>The handler body shared by the methods: \<open>print msg; print e; exit()\<close>.\<close>

definition report_exit :: "string \<Rightarrow> exc \<Rightarrow> unit py" where
  "report_exit msg e = pthen (py_print (Line msg)) (pthen (py_print (ExcObj e)) py_exit)"

text \<open>
  \<open>__call__(cmd, error_msg=None)\<close>: \<open>check_call\<close> of the attach prefix and the words of
  \<open>cmd\<close>; a \<open>CalledProcessError\<close> is re-raised when there is no message, and otherwise
  reported before \<open>exit()\<close>. Other exceptions (\<open>OSError\<close>) pass through.
\<close>

definition container_call :: "container \<Rightarrow> string \<Rightarrow> string option \<Rightarrow> unit py" where
  "container_call c cmd error_msg =
     pcatch (check_call (attach_cmd c @ py_split cmd))
       (\<lambda>e. case e of
              CalledProcessError _ _ \<Rightarrow>
                Some (if \<not> py_truthy error_msg then praise e else report_exit (the error_msg) e)
            | _ \<Rightarrow> None)"

definition create :: "container \<Rightarrow> unit py" where
  "create c =
     pcatch (check_call (py_split (create_cmd c)))
       (\<lambda>e. case e of
              CalledProcessError _ _ \<Rightarrow>
                Some (report_exit ''Something went wrong when creating the container.'' e)
            | _ \<Rightarrow> None)"

definition start :: "container \<Rightarrow> unit py" where
  "start c =
     pcatch (check_call (py_split (start_cmd c)))
       (\<lambda>e. case e of
              CalledProcessError _ _ \<Rightarrow>
                Some (report_exit ''Could not start the container, cannot continue with bootstrap.'' e)
            | _ \<Rightarrow> None)"

text \<open>The \<open>useradd\<close> command line of one user.\<close>

definition useradd_cmd :: "nat \<Rightarrow> nat \<Rightarrow> string \<Rightarrow> string \<Rightarrow> string" where
  "useradd_cmd uid gid shadow name =
     ''useradd --create-home -u '' @ nat_str uid @ '' -g '' @ nat_str gid @ '' -p '' @ shadow
       @ '' --shell=/bin/bash '' @ name"

text \<open>
  The body of the \<open>try\<close> for one user: \<open>useradd\<close> (its format string reads
  \<open>user.shadow_password\<close>, which may draw a salt), \<open>groupadd\<close>, and \<open>usermod\<close> for an
  admin.
\<close>

definition bootstrap_user :: "container \<Rightarrow> nat \<Rightarrow> nat \<Rightarrow> user \<Rightarrow> unit py" where
  "bootstrap_user c uid gid user =
     pbind (shadow_password user) (\<lambda>(shadow, user').
       pthen (container_call c (useradd_cmd uid gid shadow (u_name user')) None)
       (pthen (container_call c (''groupadd -g '' @ nat_str gid @ '' '' @ u_name user') None)
         (if u_admin user' \<noteq> 0
          then container_call c (''usermod -a -G sudo '' @ u_name user') None
          else pret ())))"

text \<open>The \<open>try\<close> around one user: a \<open>CalledProcessError\<close> is reported and swallowed.\<close>

definition bootstrap_user_try :: "container \<Rightarrow> nat \<Rightarrow> nat \<Rightarrow> user \<Rightarrow> unit py" where
  "bootstrap_user_try c uid gid user =
     pcatch (bootstrap_user c uid gid user)
       (\<lambda>e. case e of
              CalledProcessError _ _ \<Rightarrow>
                Some (py_print (Line (''Something went wrong when bootstrapping user ''
                        @ CHR 0x27 # u_name user @ CHR 0x27 # ''...'')))
            | _ \<Rightarrow> None)"

text \<open>The loop \<open>for user in users\<close>: \<open>uid\<close> and \<open>gid\<close> grow by one per user.\<close>

fun bootstrap_user_loop :: "container \<Rightarrow> nat \<Rightarrow> nat \<Rightarrow> user list \<Rightarrow> unit py" where
  "bootstrap_user_loop c uid gid [] = pret ()"
| "bootstrap_user_loop c uid gid (user # users) =
     pthen (bootstrap_user_try c uid gid user) (bootstrap_user_loop c (uid + 1) (gid + 1) users)"

text \<open>
  \<open>bootstrap_users\<close>: \<open>deluser\<close> of the image's default user is fatal on failure;
  a failing \<open>delgroup\<close> is caught whatever its return code, and reported only for 5.
\<close>

definition bootstrap_users :: "container \<Rightarrow> user list \<Rightarrow> unit py" where
  "bootstrap_users c users =
     pthen (container_call c (''deluser --remove-all-files '' @ ''ubuntu'')
              (Some ''Could not delete default user and/or group, please refer to error logs.''))
     (pthen (pcatch (container_call c (''delgroup --only-if-empty '' @ ''ubuntu'') None)
               (\<lambda>e. case e of
                      CalledProcessError returncode _ \<Rightarrow>
                        Some (if returncode = 5
                              then py_print (Line ''Could not delete default group, it's not empty!'')
                              else pret ())
                    | _ \<Rightarrow> None))
       (bootstrap_user_loop c 1000 1000 users))"

text \<open>\<open>bootstrap_packages(to_add, to_exclude, autoremove=False)\<close>, the sets as lists.\<close>

definition bootstrap_packages :: "container \<Rightarrow> string list \<Rightarrow> string list \<Rightarrow> bool \<Rightarrow> unit py" where
  "bootstrap_packages c to_add to_exclude autoremove =
     pthen (container_call c (''apt-get install -y '' @ py_join '' '' to_add)
              (Some ''Something went wrong installing additional packages.''))
     (pthen (container_call c (''apt-get remove -y --purge '' @ py_join '' '' to_exclude)
               (Some ''Something went wrong removing specified packages.''))
       (if autoremove
        then container_call c ''apt-get autoremove -y --purge''
               (Some ''Something went wrong cleaning up after removal with 'autoremove'.'')
        else pret ()))"

text \<open>The argument vectors of the two fixed commands of \<open>bootstrap_users\<close>.\<close>

definition deluser_argv :: "container \<Rightarrow> string list" where
  "deluser_argv c = attach_cmd c @ [''deluser'', ''--remove-all-files'', ''ubuntu'']"

definition delgroup_argv :: "container \<Rightarrow> string list" where
  "delgroup_argv c = attach_cmd c @ [''delgroup'', ''--only-if-empty'', ''ubuntu'']"

text \<open>The exceptions \<open>except sp.CalledProcessError\<close> catches.\<close>

definition is_called_process_error :: "exc \<Rightarrow> bool" where
  "is_called_process_error e \<longleftrightarrow> (case e of CalledProcessError _ _ \<Rightarrow> True | _ \<Rightarrow> False)"

section \<open>Lemmas\<close>

subsection \<open>Evaluation of the methods\<close>

lemma report_exit_run:
  "report_exit msg e s = (Inl SystemExit, s\<lparr>printed := printed s @ [Line msg, ExcObj e]\<rparr>)"
  by (simp add: report_exit_def pthen_def pbind_def py_print_def py_exit_def praise_def)

lemma checked_report_run:
  "pcatch (check_call argv)
     (\<lambda>e. case e of CalledProcessError _ _ \<Rightarrow> Some (report_exit msg e) | _ \<Rightarrow> None) s =
     (let s1 = s\<lparr>trace := trace s @ [argv]\<rparr> in
      case run_proc s (trace s) argv [] of
        None \<Rightarrow> (Inl (OSError ''[Errno 2] No such file or directory''), s1)
      | Some r \<Rightarrow>
          if rc r = 0 then (Inr (), s1)
          else (Inl SystemExit, s1\<lparr>printed := printed s @ [Line msg, ExcObj (CalledProcessError (rc r) argv)]\<rparr>))"
  by (simp add: check_call_run pcatch_def report_exit_run Let_def split: option.split)

lemma container_call_eval:
  "container_call c cmd error_msg s =
     (let argv = attach_cmd c @ py_split cmd; s1 = s\<lparr>trace := trace s @ [argv]\<rparr> in
      case run_proc s (trace s) argv [] of
        None \<Rightarrow> (Inl (OSError ''[Errno 2] No such file or directory''), s1)
      | Some r \<Rightarrow>
          if rc r = 0 then (Inr (), s1)
          else if py_truthy error_msg
          then (Inl SystemExit,
                s1\<lparr>printed := printed s @ [Line (the error_msg), ExcObj (CalledProcessError (rc r) argv)]\<rparr>)
          else (Inl (CalledProcessError (rc r) argv), s1))"
  by (simp add: container_call_def check_call_run pcatch_def report_exit_run praise_def Let_def
      split: option.split)

text \<open>C11: A command run through __call__ that exits non-zero re-raises CalledProcessError when there is no error message, and otherwise prints the message and the error and raises SystemExit.\<close>

lemma container_call_failure:
  assumes "run_proc s (trace s) (attach_cmd c @ py_split cmd) [] = Some r" "rc r \<noteq> 0"
  shows "container_call c cmd error_msg s =
    (if py_truthy error_msg
     then (Inl SystemExit,
           s\<lparr>trace := trace s @ [attach_cmd c @ py_split cmd],
             printed := printed s @ [Line (the error_msg),
               ExcObj (CalledProcessError (rc r) (attach_cmd c @ py_split cmd))]\<rparr>)
     else (Inl (CalledProcessError (rc r) (attach_cmd c @ py_split cmd)),
           s\<lparr>trace := trace s @ [attach_cmd c @ py_split cmd]\<rparr>))"
  using assms by (simp add: container_call_eval Let_def)

lemma framed_container_ops [framed_intros]:
  "framed (report_exit msg e)" "framed (container_call c cmd m)" "framed (create c)" "framed (start c)"
  unfolding report_exit_def container_call_def create_def start_def
  by (intro framed_intros; auto split: exc.split_asm intro!: framed_intros)+

lemma framed_bootstrap_user [framed_intros]: "framed (bootstrap_user c uid gid u)"
  by (simp add: bootstrap_user_def framed_intros split: prod.split)

lemma framed_bootstrap_user_try [framed_intros]: "framed (bootstrap_user_try c uid gid u)"
  unfolding bootstrap_user_try_def
  by (intro framed_intros; auto split: exc.split_asm intro!: framed_intros)

lemma framed_bootstrap_user_loop [framed_intros]: "framed (bootstrap_user_loop c uid gid us)"
  by (induction us arbitrary: uid gid) (simp_all add: framed_intros)

lemma framed_bootstrap_ops [framed_intros]:
  "framed (bootstrap_users c us)" "framed (bootstrap_packages c a b r)"
  unfolding bootstrap_users_def bootstrap_packages_def
  by (intro framed_intros; auto split: exc.split_asm intro!: framed_intros)+

lemma raises_container_call [raises_intros]:
  "raises_only is_called_process_error (container_call c cmd None)"
  unfolding container_call_def
  by (intro raises_intros framed_intros)
    (auto simp: is_called_process_error_def py_truthy_def split: exc.splits exc.split_asm
      intro!: raises_intros)

lemma raises_shadow_password [raises_intros]: "raises_only P (shadow_password u)"
  by (simp add: raises_only_def) (metis shadow_password_result fst_conv sum.distinct(1))

lemma raises_bootstrap_user:
  "raises_only is_called_process_error (bootstrap_user c uid gid u)"
  unfolding bootstrap_user_def
  by (intro raises_intros framed_intros allI) (simp add: raises_intros framed_intros split: prod.split)

lemma raises_bootstrap_user_try: "raises_only P (bootstrap_user_try c uid gid u)"
  unfolding bootstrap_user_try_def
  by (intro raises_pcatch [OF framed_bootstrap_user raises_bootstrap_user])
    (auto simp: is_called_process_error_def split: exc.splits exc.split_asm intro!: raises_intros)

lemma bootstrap_user_loop_no_exception:
  "raises_only (\<lambda>e. False) (bootstrap_user_loop c uid gid us)"
proof (induction us arbitrary: uid gid)
  case Nil
  then show ?case by (simp add: raises_pret)
next
  case (Cons u us)
  show ?case
    unfolding bootstrap_user_loop.simps
    by (intro raises_pthen framed_intros Cons.IH raises_bootstrap_user_try)
qed

text \<open>C6: When every executable exists, the loop over the users always completes normally: a failing useradd, groupadd or usermod of one user is caught, whatever the number of users.\<close>

lemma bootstrap_user_loop_total:
  assumes "oracle_total s"
  shows "fst (bootstrap_user_loop c uid gid users s) = Inr ()"
  using bootstrap_user_loop_no_exception assms by (rule raises_nothing_returns)

text \<open>C7: The uid and gid given to a user depend only on its position: after any prefix of users, whatever failed inside it, the next user gets the starting ids plus the length of the prefix.\<close>

lemma bootstrap_user_loop_append:
  assumes "fst (bootstrap_user_loop c uid gid us1 s) = Inr ()"
  shows "bootstrap_user_loop c uid gid (us1 @ us2) s =
           bootstrap_user_loop c (uid + length us1) (gid + length us1) us2
             (snd (bootstrap_user_loop c uid gid us1 s))"
  using assms
proof (induction us1 arbitrary: uid gid s)
  case Nil
  then show ?case by (simp add: pret_def)
next
  case (Cons u us1)
  obtain r s1 where t: "bootstrap_user_try c uid gid u s = (r, s1)" by (cases "bootstrap_user_try c uid gid u s")
  show ?case
  proof (cases r)
    case (Inl e)
    then show ?thesis using Cons.prems t by (simp add: pthen_def pbind_def)
  next
    case (Inr x)
    then show ?thesis using Cons.prems Cons.IH [of "Suc uid" "Suc gid" s1] t
      by (simp add: pthen_def pbind_def)
  qed
qed

lemma py_split_deluser: "py_split ''deluser --remove-all-files ubuntu'' = [''deluser'', ''--remove-all-files'', ''ubuntu'']"
  by (simp add: py_split_def py_isspace_def py_whitespace_def)

lemma py_split_delgroup: "py_split ''delgroup --only-if-empty ubuntu'' = [''delgroup'', ''--only-if-empty'', ''ubuntu'']"
  by (simp add: py_split_def py_isspace_def py_whitespace_def)

text \<open>C9: If deluser of the default user fails, bootstrap_users prints the message and the error, raises SystemExit and starts no further command.\<close>

lemma deluser_failure_fatal:
  assumes "run_proc s (trace s) (deluser_argv c) [] = Some r" "rc r \<noteq> 0"
  shows "bootstrap_users c users s =
           (Inl SystemExit,
            s\<lparr>trace := trace s @ [deluser_argv c],
              printed := printed s @
                [Line ''Could not delete default user and/or group, please refer to error logs.'',
                 ExcObj (CalledProcessError (rc r) (deluser_argv c))]\<rparr>)"
  using assms
  by (simp add: bootstrap_users_def pthen_def pbind_def container_call_eval py_split_deluser
      deluser_argv_def py_truthy_def Let_def)

text \<open>C10: If deluser succeeds and delgroup fails with any return code, the failure is swallowed (reported only for code 5) and the user loop runs from uid and gid 1000.\<close>

lemma delgroup_failure_ignored:
  assumes "run_proc s (trace s) (deluser_argv c) [] = Some r1" "rc r1 = 0"
    and "run_proc s (trace s @ [deluser_argv c]) (delgroup_argv c) [] = Some r2" "rc r2 \<noteq> 0"
  shows "bootstrap_users c users s =
           bootstrap_user_loop c 1000 1000 users
             (s\<lparr>trace := trace s @ [deluser_argv c, delgroup_argv c],
                printed := printed s @
                  (if rc r2 = 5 then [Line ''Could not delete default group, it's not empty!''] else [])\<rparr>)"
  using assms
  by (simp add: bootstrap_users_def pthen_def pbind_def pcatch_def container_call_eval
      py_split_deluser py_split_delgroup deluser_argv_def delgroup_argv_def py_truthy_def Let_def
      py_print_def pret_def)

text \<open>C8: For one user, useradd runs first; groupadd runs only when useradd succeeded, and usermod -a -G sudo only when both succeeded and the user is an admin.\<close>

lemma bootstrap_user_commands:
  assumes "run_proc s = (\<lambda>hist argv inp. Some (answer argv))"
  shows "\<exists>h. trace (snd (bootstrap_user c uid gid u s)) =
     trace s @ [attach_cmd c @ py_split (useradd_cmd uid gid h (u_name u))] @
     (if rc (answer (attach_cmd c @ py_split (useradd_cmd uid gid h (u_name u)))) = 0
      then [attach_cmd c @ py_split (''groupadd -g '' @ nat_str gid @ '' '' @ u_name u)] @
           (if rc (answer (attach_cmd c @ py_split (''groupadd -g '' @ nat_str gid @ '' '' @ u_name u))) = 0
               \<and> u_admin u \<noteq> 0
            then [attach_cmd c @ py_split (''usermod -a -G sudo '' @ u_name u)] else [])
      else [])"
proof -
  obtain h u' s' where sh: "shadow_password u s = (Inr (h, u'), s')"
    and u': "u_name u' = u_name u" "u_admin u' = u_admin u"
    and s': "trace s' = trace s" "run_proc s' = run_proc s"
    using shadow_password_result [of u s] by blast
  show ?thesis
    by (rule exI [of _ h])
      (simp add: bootstrap_user_def pbind_def pthen_def sh u' s' assms container_call_eval Let_def
        pret_def)
qed

lemma py_split_apt_get:
  "py_split (''apt-get install -y '' @ x) = [''apt-get'', ''install'', ''-y''] @ py_split x"
  "py_split (''apt-get remove -y --purge '' @ x) = [''apt-get'', ''remove'', ''-y'', ''--purge''] @ py_split x"
  by (simp_all add: py_split_def py_isspace_def py_whitespace_def)

text \<open>C12: When every command succeeds and autoremove is off, bootstrap_packages runs exactly apt-get install -y with the words of the packages to add, then apt-get remove -y --purge with the words of the packages to exclude.\<close>

lemma bootstrap_packages_commands:
  assumes "run_proc s = (\<lambda>hist argv inp. Some r)" "rc r = 0"
  shows "bootstrap_packages c to_add to_exclude False s =
    (Inr (), s\<lparr>trace := trace s @
       [attach_cmd c @ [''apt-get'', ''install'', ''-y''] @ concat (map py_split to_add),
        attach_cmd c @ [''apt-get'', ''remove'', ''-y'', ''--purge''] @ concat (map py_split to_exclude)]\<rparr>)"
  using assms
  by (simp add: bootstrap_packages_def pthen_def pbind_def container_call_eval Let_def pret_def
      py_split_apt_get [simplified] py_split_join_blank)
end
