(* ===== verification/Bootstrap.thy ===== *)
theory Bootstrap
  imports Container
begin

text \<open>
  The top level of \<open>lxc_bootstrap.py\<close>: the architecture map, \<open>_parse_arguments\<close> after
  \<open>argparse\<close> has read the command line, and \<open>run\<close>, which builds the container and its
  users and calls the \<open>Container\<close> methods.
\<close>

section \<open>\<open>ARCHITECTURE_MAP\<close>\<close>

text \<open>
  A \<open>TransparentDict\<close>: a dictionary whose \<open>__missing__\<close> returns the key itself, so a
  lookup of an unknown key gives the key.
\<close>

definition transparent_lookup :: "(string \<times> string) list \<Rightarrow> string \<Rightarrow> string" where
  "transparent_lookup d key = (case map_of d key of Some v \<Rightarrow> v | None \<Rightarrow> key)"

definition ARCHITECTURE_MAP :: "(string \<times> string) list" where
  "ARCHITECTURE_MAP =
     [(''x86_64'', ''amd64''), (''x86'', ''i386''), (''armv7l'', ''armhf''), (''armv8l'', ''arm64'')]"

section \<open>Arguments\<close>

text \<open>
  The namespace \<open>argparse\<close> returns: one field per \<open>dest\<close>, with the declared defaults
  where the option is absent (\<open>--add-packages\<close> and \<open>--exclude-packages\<close> always give a
  string). \<open>_parse_arguments\<close> then adds three attributes, \<open>to_add\<close>, \<open>to_remove\<close> and
  \<open>autoremove_after\<close>.
\<close>

record cli =
  container_bootstrap_existing :: bool
  container_name :: string
  container_arch :: "string option"
  container_dist :: "string option"
  container_release :: "string option"
  packages_add :: string
  packages_exclude :: string
  user_datafile :: "string option"

record args = cli +
  to_add :: "string list"
  to_remove :: "string list"
  autoremove_after :: bool

text \<open>
  \<open>Popen('/usr/bin/lsb_release -s ...'.split(), stdout=PIPE, stderr=PIPE).communicate()\<close>:
  any output on stderr raises \<open>SystemError\<close>; otherwise stdout, lower-cased, stripped of
  carriage returns and newlines.
\<close>

definition lsb_release_field :: "string \<Rightarrow> string \<Rightarrow> string py" where
  "lsb_release_field cmd msg =
     pbind (popen_communicate (py_split cmd) [] True True) (\<lambda>r.
       if py_truthy (snd r) then praise (SystemError msg)
       else pret (py_strip [CHR 0x0D, CHR 0x0A] (py_lower (the (fst r)))))"

text \<open>The block \<open>if not args.container_bootstrap_existing:\<close> filling in the defaults.\<close>

definition fill_platform_defaults :: "cli \<Rightarrow> cli py" where
  "fill_platform_defaults a =
     (if container_bootstrap_existing a then pret a
      else
        pbind (if py_truthy (container_arch a) then pret (container_arch a)
               else pbind platform_machine (\<lambda>m. pret (Some (transparent_lookup ARCHITECTURE_MAP m))))
        (\<lambda>arch.
        pbind (if py_truthy (container_dist a) then pret (container_dist a)
               else pbind (lsb_release_field ''/usr/bin/lsb_release -s -i''
                             ''Error getting release distributor ID.'') (\<lambda>d. pret (Some d)))
        (\<lambda>dist.
        pbind (if py_truthy (container_release a) then pret (container_release a)
               else pbind (lsb_release_field ''/usr/bin/lsb_release -s -c''
                             ''Error getting release codename from lsb_release'') (\<lambda>r. pret (Some r)))
        (\<lambda>rel.
        pret (a\<lparr>container_arch := arch, container_dist := dist, container_release := rel\<rparr>)))))"

definition default_to_add :: "string list" where
  "default_to_add =
     [''openssh-server'', ''software-properties-common'', ''haveged'', ''python'', ''python-dev'',
      ''python3'', ''python3-dev'', ''perl-modules'', ''ubuntu-server'', ''iptables'',
      ''libnetfilter-conntrack3'']"

definition default_to_remove :: "string list" where
  "default_to_remove = [''lxd'', ''lxd-client'', ''lxd-tools'', ''lxc'']"

text \<open>\<open>set(map(str.lower, s.split(',')))\<close>.\<close>

definition package_list :: "string \<Rightarrow> string list" where
  "package_list s = pyset_of (map py_lower (py_split_sep (CHR '','') s))"

text \<open>The package sets: \<open>to_add |= added\<close>, then \<open>to_add -= excluded\<close>, \<open>to_remove |= excluded\<close>.\<close>

definition package_sets :: "cli \<Rightarrow> string list \<times> string list" where
  "package_sets a =
     (let to_add1 = (if packages_add a \<noteq> [] then pyset_ior default_to_add (package_list (packages_add a))
                     else default_to_add)
      in if packages_exclude a \<noteq> []
         then (pyset_isub to_add1 (package_list (packages_exclude a)),
               pyset_ior default_to_remove (package_list (packages_exclude a)))
         else (to_add1, default_to_remove))"

definition parse_arguments :: "cli \<Rightarrow> args py" where
  "parse_arguments a =
     pbind platform_platform (\<lambda>current_platform.
       if py_in ''Windows'' current_platform
       then praise (OSError ''LXC doesn't work on Windows, so we can't use this script. Sorry!'')
       else if \<not> py_in ''Linux'' current_platform
       then praise (OSError ''This script only works for Linux OSes, sorry!'')
       else
         pbind (fill_platform_defaults (a\<lparr>container_name := py_strip [CHR 0x27] (container_name a)\<rparr>))
           (\<lambda>a'. pret (cli.extend a' (args.fields (fst (package_sets a')) (snd (package_sets a')) False))))"

text \<open>
  Reading a set-valued attribute of the namespace by name, as \<open>args.to_add\<close> does; a
  name the namespace does not have raises \<open>AttributeError\<close>.
\<close>

definition args_set_attrs :: "args \<Rightarrow> (string \<times> string list) list" where
  "args_set_attrs a = [(''to_add'', to_add a), (''to_remove'', to_remove a)]"

definition getattr_set :: "args \<Rightarrow> string \<Rightarrow> string list py" where
  "getattr_set a attr =
     (case map_of (args_set_attrs a) attr of
        Some v \<Rightarrow> pret v
      | None \<Rightarrow> praise (AttributeError (CHR 0x27 # ''Namespace' object has no attribute ''
                                       @ CHR 0x27 # attr @ [CHR 0x27])))"

text \<open>The options \<open>_parse_arguments\<close> passes through unchanged.\<close>

definition same_options :: "cli \<Rightarrow> 'a cli_scheme \<Rightarrow> bool" where
  "same_options a r \<longleftrightarrow>
     container_bootstrap_existing r = container_bootstrap_existing a \<and>
     container_name r = container_name a \<and> packages_add r = packages_add a \<and>
     packages_exclude r = packages_exclude a \<and> user_datafile r = user_datafile a"


section \<open>\<open>run\<close>\<close>

definition run :: "cli \<Rightarrow> unit py" where
  "run a =
     pbind (parse_arguments a) (\<lambda>args.
     let container = Container (container_name args) (container_arch args) (container_dist args)
                       (container_release args) in
     pbind (get_users (user_datafile args)) (\<lambda>us.
     let users = [User ''teward'' ''BLAH'' None 1] @ us in
     pthen (if \<not> container_bootstrap_existing args then create container else pret ())
     (pthen (start container)
     (pbind (getattr_set args ''to_add'') (\<lambda>add.
      pbind (getattr_set args ''to_exclude'') (\<lambda>exclude.
      pthen (bootstrap_packages container add exclude False)
        (bootstrap_users container users)))))))"

text \<open>
  The main guard \<open>if __name__ == "__main__": run()\<close>: no handler, so an exception
  reaches the interpreter, which exits with the status \<open>exit_status\<close> gives.
\<close>

definition bootstrap_main :: "cli \<Rightarrow> unit py" where
  "bootstrap_main a = run a"

section \<open>Lemmas\<close>

lemma getattr_set_args:
  "getattr_set a ''to_add'' = pret (to_add a)"
  "getattr_set a ''to_exclude'' =
     praise (AttributeError (CHR 0x27 # ''Namespace' object has no attribute ''
                             @ CHR 0x27 # ''to_exclude'' @ [CHR 0x27]))"
  by (simp_all add: getattr_set_def args_set_attrs_def)

lemma run_unfold:
  "run a =
     pbind (parse_arguments a) (\<lambda>args.
     pbind (get_users (user_datafile args)) (\<lambda>us.
     pthen (if \<not> container_bootstrap_existing args
            then create (Container (container_name args) (container_arch args) (container_dist args)
                           (container_release args))
            else pret ())
     (pthen (start (Container (container_name args) (container_arch args) (container_dist args)
                      (container_release args)))
       (praise (AttributeError (CHR 0x27 # ''Namespace' object has no attribute ''
                                 @ CHR 0x27 # ''to_exclude'' @ [CHR 0x27]))))))"
  by (simp add: run_def getattr_set_args Let_def)

lemma py_split_lsb_release:
  "py_split ''/usr/bin/lsb_release -s -i'' = [''/usr/bin/lsb_release'', ''-s'', ''-i'']"
  "py_split ''/usr/bin/lsb_release -s -c'' = [''/usr/bin/lsb_release'', ''-s'', ''-c'']"
  by (simp_all add: py_split_def py_isspace_def py_whitespace_def)

lemma take_py_split_create_cmd: "take 1 (py_split (create_cmd c)) = [''/usr/bin/lxc-create'']"
  by (simp add: create_cmd_def py_split_def py_isspace_def py_whitespace_def)

lemma take_py_split_start_cmd: "take 1 (py_split (start_cmd c)) = [''lxc-start'']"
  by (simp add: start_cmd_def py_split_def py_isspace_def py_whitespace_def)

lemma spawns_lsb_release_field [spawns_intros]:
  "Q (py_split cmd) \<Longrightarrow> spawns_only Q (lsb_release_field cmd msg)"
  by (simp add: lsb_release_field_def spawns_intros)

lemma spawns_fill_platform_defaults:
  assumes "Q [''/usr/bin/lsb_release'', ''-s'', ''-i'']" "Q [''/usr/bin/lsb_release'', ''-s'', ''-c'']"
  shows "spawns_only Q (fill_platform_defaults a)"
  unfolding fill_platform_defaults_def
  by (intro spawns_intros) (simp_all add: py_split_lsb_release assms)

lemma spawns_parse_arguments:
  assumes "Q [''/usr/bin/lsb_release'', ''-s'', ''-i'']" "Q [''/usr/bin/lsb_release'', ''-s'', ''-c'']"
  shows "spawns_only Q (parse_arguments a)"
  unfolding parse_arguments_def
  by (intro spawns_intros spawns_fill_platform_defaults assms)

lemma spawns_get_users [spawns_intros]: "spawns_only Q (get_users f)"
  unfolding get_users_def
  by (intro spawns_intros) (simp split: sum.split add: spawns_intros)

lemma spawns_create_start:
  "Q (py_split (create_cmd c)) \<Longrightarrow> spawns_only Q (create c)"
  "Q (py_split (start_cmd c)) \<Longrightarrow> spawns_only Q (start c)"
  unfolding create_def start_def report_exit_def
  by (intro spawns_intros; auto split: exc.split_asm intro!: spawns_intros)+

lemma fill_platform_defaults_options: "returns_only (same_options a) (fill_platform_defaults a)"
  unfolding fill_platform_defaults_def
  by (intro returns_if returns_pret returns_pbind_any) (simp_all add: same_options_def)

lemma parse_arguments_result:
  "returns_only (\<lambda>r. container_bootstrap_existing r = container_bootstrap_existing a \<and>
       user_datafile r = user_datafile a \<and>
       container_name r = py_strip [CHR 0x27] (container_name a) \<and>
       to_add r = fst (package_sets a) \<and> to_remove r = snd (package_sets a) \<and>
       \<not> autoremove_after r) (parse_arguments a)"
  unfolding parse_arguments_def
  apply (rule returns_pbind_any)
  apply (intro returns_if returns_praise)
  apply (rule returns_pbind [OF fill_platform_defaults_options])
  apply (rule returns_pret)
  apply (auto simp: same_options_def cli.extend_def args.fields_def package_sets_def)
  done

lemma fill_platform_defaults_existing:
  "container_bootstrap_existing a \<Longrightarrow> fill_platform_defaults a = pret a"
  by (simp add: fill_platform_defaults_def)

lemma spawns_parse_arguments_existing:
  "container_bootstrap_existing a \<Longrightarrow> spawns_only Q (parse_arguments a)"
  unfolding parse_arguments_def
  by (simp add: fill_platform_defaults_existing spawns_intros)

text \<open>C23: Reading the distributor ID or the codename from lsb_release raises SystemError exactly when the tool wrote to stderr; its return code is never looked at, and the answer is the lower-cased output without carriage returns and newlines.\<close>

lemma lsb_release_field_run:
  "lsb_release_field cmd msg s =
     (let argv = py_split cmd; s1 = s\<lparr>trace := trace s @ [argv]\<rparr> in
      case run_proc s (trace s) argv [] of
        None \<Rightarrow> (Inl (OSError ''[Errno 2] No such file or directory''), s1)
      | Some r \<Rightarrow>
          if p_err r \<noteq> [] then (Inl (SystemError msg), s1)
          else (Inr (py_strip [CHR 0x0D, CHR 0x0A] (py_lower (p_out r))), s1))"
  by (simp add: lsb_release_field_def popen_communicate_def pbind_def spawn_def pret_def praise_def
      communicated_def py_truthy_def Let_def split: option.split)

text \<open>C21: The packages to add are the defaults and the added ones minus the excluded ones; the packages to remove are the default removals and the excluded ones.\<close>

lemma package_sets_exclude_wins:
  "set (fst (package_sets a)) =
     (set default_to_add \<union> (if packages_add a \<noteq> [] then set (package_list (packages_add a)) else {}))
     - (if packages_exclude a \<noteq> [] then set (package_list (packages_exclude a)) else {})
   \<and> set (snd (package_sets a)) =
     set default_to_remove \<union> (if packages_exclude a \<noteq> [] then set (package_list (packages_exclude a)) else {})"
  by (auto simp: package_sets_def set_pyset_ior set_pyset_isub Let_def)

text \<open>C24: Without --existing and without --arch, the architecture is the host machine name mapped through ARCHITECTURE_MAP, with distribution and release given on the command line.\<close>

lemma fill_platform_defaults_arch:
  assumes "\<not> container_bootstrap_existing a" "\<not> py_truthy (container_arch a)"
    "py_truthy (container_dist a)" "py_truthy (container_release a)"
  shows "fill_platform_defaults a s =
           (Inr (a\<lparr>container_arch := Some (transparent_lookup ARCHITECTURE_MAP (machine_str s))\<rparr>), s)"
  using assms by (simp add: fill_platform_defaults_def pbind_def pret_def platform_machine_def)

lemma framed_lsb_release_field [framed_intros]: "framed (lsb_release_field cmd msg)"
  by (simp add: lsb_release_field_def framed_intros)

lemma framed_fill_platform_defaults [framed_intros]: "framed (fill_platform_defaults a)"
  unfolding fill_platform_defaults_def by (intro framed_intros)

lemma framed_parse_arguments [framed_intros]: "framed (parse_arguments a)"
  unfolding parse_arguments_def by (intro framed_intros)

lemma ok_lsb_release_field:
  "p_err r = [] \<Longrightarrow> ok_under (\<lambda>h argv inp. Some r) (lsb_release_field cmd msg)"
  by (simp add: ok_under_def lsb_release_field_run Let_def)

lemma ok_fill_platform_defaults:
  "p_err r = [] \<Longrightarrow> ok_under (\<lambda>h argv inp. Some r) (fill_platform_defaults a)"
  unfolding fill_platform_defaults_def
  by (intro ok_if ok_pret ok_pbind framed_intros ok_platform_machine ok_lsb_release_field)

lemma parse_arguments_ok:
  assumes "run_proc s = (\<lambda>h argv inp. Some r)" "p_err r = []"
    "py_in ''Linux'' (platform_str s)" "\<not> py_in ''Windows'' (platform_str s)"
  shows "\<exists>args. fst (parse_arguments a s) = Inr args"
proof -
  have "ok_under (\<lambda>h argv inp. Some r)
          (pbind (fill_platform_defaults (a\<lparr>container_name := py_strip [CHR 0x27] (container_name a)\<rparr>))
            (\<lambda>a'. pret (cli.extend a' (args.fields (fst (package_sets a')) (snd (package_sets a')) False))))"
    by (intro ok_pbind framed_intros ok_fill_platform_defaults assms(2) ok_pret)
  then show ?thesis
    using assms unfolding ok_under_def
    by (simp add: parse_arguments_def pbind_def platform_platform_def)
qed

text \<open>C22: An exclusion list written with a blank after the comma, y, x, never excludes the default package x (unless y already names it): the entry is ' x', so x stays among the packages to add.\<close>

lemma exclusion_blank_ignored:
  assumes "CHR '','' \<notin> set y" "CHR '','' \<notin> set x" "x \<in> set default_to_add" "x \<noteq> py_lower y"
  shows "x \<in> set (fst (package_sets (a\<lparr>packages_exclude := y @ '', '' @ x\<rparr>)))"
proof -
  have "package_list (y @ '', '' @ x) = remdups [py_lower y, CHR '' '' # py_lower x]"
    using assms(1,2)
    by (simp add: package_list_def pyset_of_def py_split_sep_line py_split_sep_word py_lower_def
        lower_char_def del: append_assoc)
  moreover have "x \<noteq> CHR '' '' # py_lower x"
    by (metis length_Cons length_map n_not_Suc_n py_lower_def)
  ultimately show ?thesis
    using assms(3,4) by (simp add: package_sets_def Let_def set_pyset_isub set_pyset_ior)
qed

end
