(* ===== verification/Spec2Isabelle.thy ===== *)
theory Spec2Isabelle
  imports Nuke_Spec Bootstrap
begin

text \<open>
  \<^bold>\<open>Verification of lxc-util-scripts.\<close>
  The repository has two Python 2 scripts that drive the LXC command-line toolkit:
  \<^item> the destroyer \<open>src/lxc-nuke/lxc_nuke.py\<close>: list the containers, test whether the
    named one exists and runs, stop it if it runs, destroy it;
  \<^item> the provisioner \<open>src/lxc-bootstrap/lxc_bootstrap.py\<close>: resolve the options and the
    package sets (\<open>_parse_arguments\<close>), read extra users from a datafile
    (\<open>get_users\<close>), create and start a container, install and remove packages in it and
    create its users (class \<open>Container\<close>, class \<open>User\<close>, \<open>run\<close>).
  Both only talk to the outside through processes they start, what they print, and (for the
  provisioner) the random source, \<open>crypt\<close>, files and platform queries.

  \<^bold>\<open>Theories.\<close>
  \<^item> \<open>Py_Prelude\<close>: the Python string operations the scripts use (\<open>split\<close>, \<open>split(sep)\<close>,
    \<open>join\<close>, \<open>strip\<close>, \<open>lower\<close>, \<open>in\<close>, \<open>int()\<close>, \<open>'{}'.format\<close>, \<open>repr\<close>, sets as
    duplicate-free lists), with their algebra: word splitting of joins, \<open>join\<close>/\<open>split(sep)\<close> and
    \<open>int\<close>/\<open>str\<close> round trips.
  \<^item> \<open>Py_Process\<close>: the execution model. A computation is \<open>'a py = sys \<Rightarrow> (exc + 'a) \<times> sys\<close>:
    a Python exception (\<open>Inl\<close>) or a value, and the new environment. The record \<open>sys\<close> holds
    the behaviour of every external command (\<open>run_proc\<close>, given the commands started so far,
    the argument vector and the standard input), the trace of argument vectors started, the
    printed items, the random source and its draw counter, \<open>crypt\<close>, the files and the
    platform strings. Primitives: \<open>check_call\<close>, \<open>Popen().communicate()\<close> (a stream not
    opened with \<open>PIPE\<close> reads as \<open>None\<close>), \<open>print\<close>, \<open>exit()\<close> (\<open>SystemExit\<close>, status 0),
    \<open>random.SystemRandom().choice\<close>, \<open>crypt.crypt\<close>, \<open>open\<close>, \<open>platform\<close>, and the
    matching of an \<open>except\<close> clause (\<open>except_matches\<close>: a class matches through the
    exception's \<open>__mro__\<close>, any other value never matches). Generic
    reasoning: \<open>framed\<close> (a computation only appends to trace and output), \<open>raises_only\<close>
    (which exceptions can escape when every executable exists), \<open>spawns_only\<close> (which
    commands can be started), \<open>returns_only\<close> (which values can be returned) and
    \<open>ok_under\<close> (returning normally under a given process behaviour), each with its
    collection of introduction rules.
  \<^item> \<open>Nuke\<close>: one definition per function of \<open>lxc_nuke.py\<close> (\<open>get_container_list\<close>,
    \<open>container_exists\<close>, \<open>container_is_running\<close>, \<open>stop_container\<close>,
    \<open>destroy_container\<close>, \<open>nuke_run\<close> for \<open>_run\<close>, \<open>nuke_main\<close> for the main block),
    and its behaviour branch by branch for every environment.
  \<^item> \<open>Lxc_Toolkit\<close>: an environment model of the toolkit (not code of the repository): a
    table of containers and states, what \<open>lxc-ls\<close>, \<open>lxc-ls --fancy\<close>, \<open>grep\<close>,
    \<open>lxc-stop\<close> and \<open>lxc-destroy\<close> answer, and the table after a trace of commands.
  \<^item> \<open>Nuke_Spec\<close>: the destroyer against the abstract contract \<open>destroy_spec n T =
    AList.delete n T\<close> on that environment.
  \<^item> \<open>Users\<close>: \<open>User\<close> (record \<open>user\<close>), \<open>shadow_password\<close> (the loop \<open>salt_loop\<close>, the
    guard \<open>salt_needed\<close>; the property returns the hash and the user with its new salt,
    since it assigns \<open>self.salt\<close>), and \<open>get_users\<close> with \<open>parse_user_row\<close> and the loop
    \<open>users_of_rows\<close>.
  \<^item> \<open>Container\<close>: record \<open>container\<close>, the templates \<open>create_cmd\<close>, \<open>start_cmd\<close> and the
    \<open>attach_cmd\<close> attribute, \<open>container_call\<close> for \<open>__call__\<close>, \<open>create\<close>, \<open>start\<close>,
    \<open>bootstrap_users\<close> (with \<open>bootstrap_user\<close>, the \<open>try\<close> \<open>bootstrap_user_try\<close>
    and the loop \<open>bootstrap_user_loop\<close> over uid and gid) and \<open>bootstrap_packages\<close>.
  \<^item> \<open>Bootstrap\<close>: \<open>ARCHITECTURE_MAP\<close> with \<open>transparent_lookup\<close> for the
    \<open>TransparentDict\<close>, the record \<open>cli\<close> of option values \<open>argparse\<close> returns and its
    extension \<open>args\<close>, \<open>lsb_release_field\<close>, \<open>fill_platform_defaults\<close>,
    \<open>package_sets\<close>, \<open>parse_arguments\<close>, \<open>getattr_set\<close> (attribute lookup on the
    namespace, \<open>AttributeError\<close> for a missing one), \<open>run\<close>, and \<open>bootstrap_main\<close> for
    the main guard, which has no handler.
  \<^item> this theory: properties of the whole provisioner run, and concrete environments
    (\<open>demo_sys\<close>, \<open>fail_sys\<close>, \<open>delgroup_fails\<close>, \<open>demo_cli\<close>) on which every property with
    a hypothesis is applied by a witness theorem.

  \<^bold>\<open>What is shown.\<close>
  For the destroyer: a stopped container is removed exactly as the contract says; a running
  container is stopped and never destroyed, because \<open>_stop_container\<close> checks a stderr it
  did not pipe; every fatal path exits with status 0; the existence test is a substring test;
  the \<open>except not SystemExit\<close> clause, evaluated as Python 2 does, matches nothing.
  For the provisioner: every run ends in an exception and never runs a command inside the
  container, because \<open>run\<close> reads \<open>args.to_exclude\<close>, which does not exist; when every
  command succeeds the run does progress as far as \<open>lxc-start\<close> and only then fails,
  with exit status 1 (the progress property C35); the methods
  it never reaches are still verified as written: per-user failures are swallowed and the
  loop completes whenever the executables exist, uids and gids are positional from 1000,
  \<open>groupadd\<close> and \<open>usermod\<close> run only after \<open>useradd\<close> succeeded, a failing \<open>deluser\<close>
  aborts and a failing \<open>delgroup\<close> does not, the package commands carry exactly the words
  of the sets. Salts: a missing salt becomes 8 characters of the alphabet (drawn with 9 draws)
  and is stable; an 8-character salt is kept; any other salt is extended, not replaced.
  Datafile rows round-trip; \<open>True\<close> and \<open>False\<close> as admin flag are rejected for every
  row. Package sets: the set equations show that exclusions win over the defaults and the
  added packages, but that an added default removal the user did not exclude is in both
  sets; a blank after a comma defeats the exclusion of any default package. Error paths: non-Linux host, failing
  \<open>lsb_release\<close> (judged by stderr only), bad datafile, failing \<open>lxc-create\<close>.

  \<^bold>\<open>Bounds and fuel.\<close> No fuel is needed: every loop of the scripts runs over a list
  (users, rows) or a fixed range (the 8 salt draws), and is a structural \<open>fun\<close>. Python's
  integers are unbounded; uids, gids and admin flags are \<open>nat\<close> and \<open>int\<close>.

  \<^bold>\<open>Not modelled.\<close> \<open>argparse\<close> (a library: its result is the record \<open>cli\<close>, the input
  of the model; the nuke script's parsed name is the input of \<open>nuke_main\<close>); the internals
  of \<open>crypt\<close> and of the random source (functions of the environment); the toolkit,
  \<open>grep\<close>, \<open>apt-get\<close> and the user tools, which are external programs: the destroyer's
  refinement uses the environment model \<open>Lxc_Toolkit\<close>, and the provisioner's properties
  hold for every behaviour of \<open>run_proc\<close> or state their assumption on it. Python sets are
  lists without duplicates, so properties of the package sets are stated on \<open>set\<close>; the
  order of words in an \<open>apt-get\<close> command is the list order.
\<close>

section \<open>Concrete environments for the provisioner\<close>

definition ok_proc :: proc_result where
  "ok_proc = \<lparr>rc = 0, p_out = [], p_err = []\<rparr>"

definition fail_proc :: proc_result where
  "fail_proc = \<lparr>rc = 1, p_out = [], p_err = ''error''\<rparr>"

definition demo_sys :: sys where
  "demo_sys =
     \<lparr>run_proc = (\<lambda>h argv inp. Some ok_proc), trace = [], printed = [],
      rand_src = (\<lambda>i. i), draws = 0, crypt_fn = (\<lambda>w salt. salt @ w),
      files = (\<lambda>p. if p = ''users.txt'' then Some [''bob:pw::True'' @ newline] else None),
      platform_str = ''Linux-4.15.0-x86_64'', machine_str = ''x86_64''\<rparr>"

definition fail_sys :: sys where
  "fail_sys = demo_sys\<lparr>run_proc := (\<lambda>h argv inp. Some fail_proc)\<rparr>"

definition demo_cli :: cli where
  "demo_cli =
     \<lparr>container_bootstrap_existing = False, container_name = ''web'', container_arch = None,
      container_dist = Some ''ubuntu'', container_release = Some ''bionic'',
      packages_add = [], packages_exclude = [], user_datafile = None\<rparr>"

definition demo_args :: args where
  "demo_args =
     cli.extend (demo_cli\<lparr>container_arch := Some ''amd64''\<rparr>)
       (args.fields default_to_add default_to_remove False)"

definition demo_container :: container where
  "demo_container = Container ''web'' (Some ''amd64'') (Some ''ubuntu'') (Some ''bionic'')"

definition bob :: user where
  "bob = User ''bob'' ''pw'' None 1"

definition delgroup_fails :: sys where
  "delgroup_fails =
     demo_sys\<lparr>run_proc := (\<lambda>h argv inp.
        Some (if argv = delgroup_argv demo_container then fail_proc else ok_proc))\<rparr>"

definition alice :: user where
  "alice = User ''alice'' ''secret'' (Some ''Abcdefgh'') 1"

section \<open>Properties of the whole provisioner\<close>

text \<open>C1: run never completes normally: every run of the provisioner ends in an exception, because the call bootstrap_packages(args.to_add, args.to_exclude) reads an attribute the namespace does not have.\<close>

lemma run_never_returns: "\<exists>e. fst (run a s) = Inl e"
  unfolding run_unfold
  by (intro pbind_fails pthen_fails) (simp add: praise_def)

text \<open>C2: No run of the provisioner starts a command inside the container: no argument vector it starts begins with /usr/bin/lxc-attach, so no package is installed and no user is created.\<close>

lemma run_never_attaches:
  "spawns_only (\<lambda>argv. take 1 argv \<noteq> [''/usr/bin/lxc-attach'']) (run a)"
  unfolding run_unfold
  by (intro spawns_intros spawns_parse_arguments spawns_create_start)
    (simp_all add: take_py_split_create_cmd [simplified] take_py_split_start_cmd [simplified])

text \<open>C25: With --existing, the only command a run ever starts is lxc-start: no lsb_release and no lxc-create.\<close>

lemma run_existing_only_starts:
  assumes "container_bootstrap_existing a"
  shows "spawns_only (\<lambda>argv. take 1 argv = [''lxc-start'']) (run a)"
  unfolding run_unfold
  by (rule spawns_pbind_returns [OF spawns_parse_arguments_existing [OF assms]
      parse_arguments_result])
    (use assms in \<open>auto intro!: spawns_intros spawns_create_start
       simp: take_py_split_start_cmd [simplified]\<close>)

text \<open>C26: On a platform whose name does not contain Linux, the run raises OSError before starting any command or printing anything.\<close>

lemma run_not_linux:
  assumes "\<not> py_in ''Linux'' (platform_str s)"
  shows "\<exists>msg. run a s = (Inl (OSError msg), s)"
  using assms
  by (simp add: run_def parse_arguments_def pbind_def platform_platform_def praise_def)

text \<open>C27: When the users datafile has a bad row, the run raises that row's error after parsing the arguments and before creating or starting the container.\<close>

lemma run_bad_datafile:
  assumes "parse_arguments a s = (Inr r, s1)" "py_truthy (user_datafile r)"
    "files s1 (the (user_datafile r)) = Some rows" "users_of_rows rows = Inl e"
  shows "run a s = (Inl e, s1)"
  using assms by (simp add: run_unfold pbind_def get_users_rows)

text \<open>C28: When lxc-create fails, the run prints the message and the error and raises SystemExit; lxc-start is never started.\<close>

lemma run_create_failure:
  assumes "parse_arguments a s = (Inr r, s1)" "get_users (user_datafile r) s1 = (Inr us, s2)"
    "\<not> container_bootstrap_existing r"
    "run_proc s2 (trace s2) (py_split (create_cmd (Container (container_name r) (container_arch r)
        (container_dist r) (container_release r)))) [] = Some res" "rc res \<noteq> 0"
  shows "run a s =
    (Inl SystemExit,
     s2\<lparr>trace := trace s2 @ [py_split (create_cmd (Container (container_name r) (container_arch r)
                              (container_dist r) (container_release r)))],
        printed := printed s2 @ [Line ''Something went wrong when creating the container.'',
          ExcObj (CalledProcessError (rc res) (py_split (create_cmd (Container (container_name r)
             (container_arch r) (container_dist r) (container_release r)))))]\<rparr>)"
  using assms
  by (simp add: run_unfold pbind_def pthen_def create_def checked_report_run Let_def)

text \<open>C35: In an environment where every command succeeds with empty stderr, on a Linux host and without a users datafile, the provisioner makes progress up to starting the container (it runs lxc-start) and then fails with AttributeError, so the process exits with status 1.\<close>

lemma run_reaches_start:
  assumes ok: "run_proc s = (\<lambda>h argv inp. Some r)" "rc r = 0" "p_err r = []"
    and linux: "py_in ''Linux'' (platform_str s)" "\<not> py_in ''Windows'' (platform_str s)"
    and nofile: "\<not> py_truthy (user_datafile a)"
  shows "(\<exists>argv. argv \<in> set (trace (snd (bootstrap_main a s))) \<and> take 1 argv = [''lxc-start'']) \<and>
         (\<exists>m. fst (bootstrap_main a s) = Inl (AttributeError m)) \<and>
         exit_status (fst (bootstrap_main a s)) = 1"
proof -
  obtain args where pa: "fst (parse_arguments a s) = Inr args"
    using parse_arguments_ok [OF ok(1,3) linux] by blast
  obtain s1 where p: "parse_arguments a s = (Inr args, s1)"
    using pa by (metis prod.collapse)
  have rp: "run_proc s1 = run_proc s"
    using framed_parse_arguments [of a] p unfolding framed_def frame_def by (metis snd_conv)
  have df: "user_datafile args = user_datafile a"
    using parse_arguments_result [of a] pa unfolding returns_only_def by blast
  define c where "c = Container (container_name args) (container_arch args) (container_dist args)
                        (container_release args)"
  have st: "take 1 (py_split (start_cmd c)) = [''lxc-start'']" by (rule take_py_split_start_cmd)
  show ?thesis
  proof (intro conjI)
    show "\<exists>argv. argv \<in> set (trace (snd (bootstrap_main a s))) \<and> take 1 argv = [''lxc-start'']"
      using p rp df ok nofile st
      by (intro exI [of _ "py_split (start_cmd c)"])
        (cases "container_bootstrap_existing args",
         simp_all add: bootstrap_main_def run_unfold pbind_def pthen_def pret_def praise_def
          get_users_def create_def start_def checked_report_run Let_def c_def)
  qed (use p rp df ok nofile in \<open>(cases "container_bootstrap_existing args",
         simp_all add: bootstrap_main_def run_unfold pbind_def pthen_def pret_def praise_def
          get_users_def create_def start_def checked_report_run Let_def)\<close>)+
qed

section \<open>Witnesses\<close>

lemmas demo_defs = demo_sys_def fail_sys_def ok_proc_def fail_proc_def demo_cli_def demo_args_def
  alice_def bob_def User_def demo_container_def delgroup_fails_def

lemma parse_demo:
  "parse_arguments (demo_cli\<lparr>user_datafile := f\<rparr>) s = (Inr (demo_args\<lparr>user_datafile := f\<rparr>), s)"
  if "platform_str s = ''Linux-4.15.0-x86_64''" "machine_str s = ''x86_64''"
  using that
  by (simp add: parse_arguments_def pbind_def platform_platform_def platform_machine_def pret_def
      fill_platform_defaults_def demo_defs py_in_def sublist_code py_truthy_def package_sets_def
      transparent_lookup_def ARCHITECTURE_MAP_def py_strip_def cli.extend_def args.fields_def)


theorem run_existing_only_starts_witness:
  "spawns_only (\<lambda>argv. take 1 argv = [''lxc-start''])
     (run (demo_cli\<lparr>container_bootstrap_existing := True\<rparr>))"
  using run_existing_only_starts [of "demo_cli\<lparr>container_bootstrap_existing := True\<rparr>"] by simp

theorem run_not_linux_witness:
  "\<exists>msg. run demo_cli (demo_sys\<lparr>platform_str := ''Windows-10''\<rparr>) =
          (Inl (OSError msg), demo_sys\<lparr>platform_str := ''Windows-10''\<rparr>)"
  using run_not_linux [of "demo_sys\<lparr>platform_str := ''Windows-10''\<rparr>" demo_cli]
  by (simp add: py_in_def sublist_code)

theorem run_bad_datafile_witness:
  "run (demo_cli\<lparr>user_datafile := Some ''users.txt''\<rparr>) demo_sys =
     (Inl (ValueError (''invalid literal for int() with base 10: '' @ py_repr (''True'' @ newline))),
      demo_sys)"
  using run_bad_datafile [of "demo_cli\<lparr>user_datafile := Some ''users.txt''\<rparr>" demo_sys
      "demo_args\<lparr>user_datafile := Some ''users.txt''\<rparr>" demo_sys "[''bob:pw::True'' @ newline]"]
  by (simp add: parse_demo demo_sys_def py_truthy_def parse_user_row_def py_int_def py_strip_def
      py_whitespace_def py_isdigit_def)

theorem run_create_failure_witness: "fst (run demo_cli fail_sys) = Inl SystemExit"
  using run_create_failure [of demo_cli fail_sys demo_args fail_sys "[]" fail_sys fail_proc]
    parse_demo [where f = None and s = fail_sys]
  by (simp add: fail_sys_def demo_sys_def fail_proc_def get_users_def py_truthy_def pret_def
      demo_cli_def demo_args_def cli.extend_def)

theorem shadow_password_fresh_salt_witness:
  "\<exists>t. fst (shadow_password bob demo_sys) =
        Inr (crypt_fn demo_sys ''pw'' (''$6$'' @ t @ ''$''), bob\<lparr>u_salt := Some t\<rparr>)
      \<and> length t = 8 \<and> set t \<subseteq> set SHADOW_SALT_CHARSET"
  using shadow_password_fresh_salt [of bob demo_sys] by (simp add: bob_def User_def py_truthy_def)

theorem shadow_password_nine_draws_witness:
  "draws (snd (shadow_password bob demo_sys)) = 9 \<and>
   u_salt (snd (projr (fst (shadow_password bob demo_sys)))) = Some ''bcdefghi''"
  using shadow_password_nine_draws [of bob demo_sys]
  by (simp add: bob_def User_def demo_sys_def charset_at_def SHADOW_SALT_CHARSET_def
      ascii_letters_def Users.digits_def upt_rec)

theorem shadow_password_kept_witness:
  "shadow_password alice demo_sys = (Inr (''$6$Abcdefgh$secret'', alice), demo_sys)"
  using shadow_password_kept [of alice "''Abcdefgh''" demo_sys]
  by (simp add: alice_def User_def demo_sys_def)

theorem shadow_password_wrong_length_witness:
  "\<exists>t'. fst (shadow_password (bob\<lparr>u_salt := Some ''abc''\<rparr>) demo_sys) =
     Inr (crypt_fn demo_sys ''pw'' (''$6$abc'' @ t' @ ''$''), bob\<lparr>u_salt := Some (''abc'' @ t')\<rparr>)
     \<and> length t' = 8 \<and> salt_needed (Some (''abc'' @ t'))"
  using shadow_password_wrong_length [of "bob\<lparr>u_salt := Some ''abc''\<rparr>" "''abc''" demo_sys]
  by (simp add: bob_def User_def)

theorem shadow_password_stable_witness:
  "shadow_password (bob\<lparr>u_salt := Some ''bcdefghi''\<rparr>) (snd (shadow_password bob demo_sys)) =
     (Inr (''$6$bcdefghi$pw'', bob\<lparr>u_salt := Some ''bcdefghi''\<rparr>), snd (shadow_password bob demo_sys))"
proof -
  have "fst (shadow_password bob demo_sys) = Inr (''$6$bcdefghi$pw'', bob\<lparr>u_salt := Some ''bcdefghi''\<rparr>)"
    by (simp add: shadow_password_None bob_def User_def demo_sys_def charset_at_def
        SHADOW_SALT_CHARSET_def ascii_letters_def Users.digits_def upt_rec)
  then show ?thesis
    using shadow_password_stable [of bob demo_sys "''$6$bcdefghi$pw''" "bob\<lparr>u_salt := Some ''bcdefghi''\<rparr>"]
    by (simp add: bob_def User_def py_truthy_def)
qed

theorem parse_user_row_roundtrip_witness:
  "parse_user_row (''alice'' @ '':'' @ ''secret'' @ '':'' @ ''Abcdefgh'' @ '':'' @ int_str 1 @ newline)
     = Inr alice"
  using parse_user_row_roundtrip [of "''alice''" "''secret''" "''Abcdefgh''" 1]
  by (simp add: alice_def)

theorem users_of_rows_Inr_witness:
  "users_of_rows [''alice:secret:Abcdefgh:1'' @ newline] = Inr [alice]"
  by (rule users_of_rows_Inr [THEN iffD2])
    (simp add: alice_def parse_user_row_def py_int_def py_strip_def py_whitespace_def
      py_isdigit_def digits_int_def)


lemma attach_demo: "attach_cmd demo_container = [''/usr/bin/lxc-attach'', ''-n'', ''web'', ''--'']"
  by (simp add: demo_container_def Container_def py_split_def py_isspace_def py_whitespace_def)

theorem container_call_failure_witness:
  "container_call demo_container ''true'' None fail_sys =
     (Inl (CalledProcessError 1 [''/usr/bin/lxc-attach'', ''-n'', ''web'', ''--'', ''true'']),
      fail_sys\<lparr>trace := [[''/usr/bin/lxc-attach'', ''-n'', ''web'', ''--'', ''true'']]\<rparr>)"
  using container_call_failure [of fail_sys demo_container "''true''" fail_proc None]
  by (simp add: attach_demo fail_sys_def demo_sys_def fail_proc_def py_truthy_def py_split_def
      py_isspace_def py_whitespace_def)

theorem deluser_failure_fatal_witness:
  "fst (bootstrap_users demo_container [alice] fail_sys) = Inl SystemExit"
  using deluser_failure_fatal [of fail_sys demo_container fail_proc "[alice]"]
  by (simp add: fail_sys_def demo_sys_def fail_proc_def)

theorem delgroup_failure_ignored_witness:
  "bootstrap_users demo_container [alice] delgroup_fails =
     bootstrap_user_loop demo_container 1000 1000 [alice]
       (delgroup_fails\<lparr>trace := [deluser_argv demo_container, delgroup_argv demo_container]\<rparr>)"
proof -
  have "deluser_argv demo_container \<noteq> delgroup_argv demo_container"
    by (simp add: deluser_argv_def delgroup_argv_def)
  then show ?thesis
    using delgroup_failure_ignored [of delgroup_fails demo_container ok_proc fail_proc "[alice]"]
    by (simp add: delgroup_fails_def demo_sys_def ok_proc_def fail_proc_def)
qed

theorem bootstrap_user_loop_total_witness:
  "fst (bootstrap_user_loop demo_container 1000 1000 [alice, bob] fail_sys) = Inr ()"
  using bootstrap_user_loop_total [of fail_sys demo_container 1000 1000 "[alice, bob]"]
  by (simp add: oracle_total_def fail_sys_def demo_sys_def)

theorem bootstrap_user_loop_append_witness:
  "bootstrap_user_loop demo_container 1000 1000 [alice, bob] fail_sys =
     bootstrap_user_loop demo_container 1001 1001 [bob]
       (snd (bootstrap_user_loop demo_container 1000 1000 [alice] fail_sys))"
proof -
  have "oracle_total fail_sys" by (simp add: oracle_total_def fail_sys_def demo_sys_def)
  then have "fst (bootstrap_user_loop demo_container 1000 1000 [alice] fail_sys) = Inr ()"
    by (rule raises_nothing_returns [OF bootstrap_user_loop_no_exception])
  then show ?thesis
    using bootstrap_user_loop_append [of demo_container 1000 1000 "[alice]" fail_sys "[bob]"] by simp
qed

theorem bootstrap_user_commands_witness:
  "\<exists>h. trace (snd (bootstrap_user demo_container 1000 1000 alice demo_sys)) =
     [attach_cmd demo_container @ py_split (useradd_cmd 1000 1000 h ''alice''),
      attach_cmd demo_container @ py_split (''groupadd -g '' @ nat_str 1000 @ '' alice''),
      attach_cmd demo_container @ py_split ''usermod -a -G sudo alice'']"
  using bootstrap_user_commands [of demo_sys "\<lambda>_. ok_proc" demo_container 1000 1000 alice]
  by (simp add: demo_sys_def ok_proc_def alice_def User_def)

theorem bootstrap_packages_commands_witness:
  "bootstrap_packages demo_container [''vim''] [''lxd''] False demo_sys =
     (Inr (), demo_sys\<lparr>trace :=
        [[''/usr/bin/lxc-attach'', ''-n'', ''web'', ''--'', ''apt-get'', ''install'', ''-y'', ''vim''],
         [''/usr/bin/lxc-attach'', ''-n'', ''web'', ''--'', ''apt-get'', ''remove'', ''-y'', ''--purge'',
          ''lxd'']]\<rparr>)"
  using bootstrap_packages_commands [of demo_sys ok_proc demo_container "[''vim'']" "[''lxd'']"]
  by (simp add: attach_demo demo_sys_def ok_proc_def py_split_def py_isspace_def py_whitespace_def)

theorem fill_platform_defaults_arch_witness:
  "fill_platform_defaults demo_cli demo_sys = (Inr (demo_cli\<lparr>container_arch := Some ''amd64''\<rparr>), demo_sys)"
  using fill_platform_defaults_arch [of demo_cli demo_sys]
  by (simp add: demo_cli_def demo_sys_def py_truthy_def transparent_lookup_def ARCHITECTURE_MAP_def)

theorem run_reaches_start_witness:
  "(\<exists>argv. argv \<in> set (trace (snd (bootstrap_main demo_cli demo_sys))) \<and> take 1 argv = [''lxc-start'']) \<and>
   (\<exists>m. fst (bootstrap_main demo_cli demo_sys) = Inl (AttributeError m)) \<and>
   exit_status (fst (bootstrap_main demo_cli demo_sys)) = 1"
  using run_reaches_start [of demo_sys ok_proc demo_cli]
  by (simp add: demo_sys_def ok_proc_def demo_cli_def py_in_def sublist_code py_truthy_def)

theorem admin_flag_bool_rejected_witness:
  "parse_user_row (''bob'' @ '':'' @ ''pw'' @ '':'' @ [] @ '':'' @ ''True'' @ newline) =
     Inl (ValueError (''invalid literal for int() with base 10: '' @ py_repr (''True'' @ newline)))"
  using admin_flag_bool_rejected [of "''bob''" "''pw''" "[]" "''True''"] by simp

theorem exclusion_blank_ignored_witness:
  "''haveged'' \<in> set (fst (package_sets (demo_cli\<lparr>packages_exclude := ''lxd'' @ '', '' @ ''haveged''\<rparr>)))"
  using exclusion_blank_ignored [of "''lxd''" "''haveged''" demo_cli]
  by (simp add: default_to_add_def py_lower_def lower_char_def)

end
